theory Spec2Isabelle
  imports Complex_Main "HOL-Library.Word" "HOL-Library.Multiset"
begin

unbundle bit_operations_syntax

section \<open>JavaScript values and errors\<close>

text \<open>
  The errors the modelled functions can raise: \<open>ArgumentError\<close> is the library's own
  error class, \<open>RangeError\<close> is raised by \<open>DataView\<close> reads outside the buffer, and
  \<open>TypeError\<close> by a property access on \<open>undefined\<close>.
\<close>

datatype js_error = ArgumentError | RangeError | TypeError

text \<open>
  A JavaScript number as far as the comparisons of the sources need it: a finite value,
  one of the two infinities, or NaN. Every comparison with NaN is false.
\<close>

datatype js_number = Num real | PosInfinity | NegInfinity | NaN

fun js_le :: "js_number \<Rightarrow> real \<Rightarrow> bool" where
  "js_le (Num x) c = (x \<le> c)"
| "js_le PosInfinity c = False"
| "js_le NegInfinity c = True"
| "js_le NaN c = False"

fun js_gt :: "js_number \<Rightarrow> real \<Rightarrow> bool" where
  "js_gt (Num x) c = (x > c)"
| "js_gt PosInfinity c = True"
| "js_gt NegInfinity c = False"
| "js_gt NaN c = False"

text \<open>
  A JavaScript value as the property setters see it. An object carries the names of the
  constructors on its prototype chain and an identity.
\<close>

datatype js_value =
  JSUndefined
| JSNull
| JSBoolean bool
| JSNumber js_number
| JSString string
| JSObject (proto_chain: "string list") (ident: nat)

fun truthy :: "js_value \<Rightarrow> bool" where
  "truthy JSUndefined = False"
| "truthy JSNull = False"
| "truthy (JSBoolean b) = b"
| "truthy (JSNumber (Num x)) = (x \<noteq> 0)"
| "truthy (JSNumber NaN) = False"
| "truthy (JSNumber _) = True"
| "truthy (JSString s) = (s \<noteq> [])"
| "truthy (JSObject _ _) = True"

fun instanceof :: "js_value \<Rightarrow> string \<Rightarrow> bool" where
  "instanceof (JSObject chain _) c = (c \<in> set chain)"
| "instanceof _ c = False"


section \<open>GeoTiffUtil.getBytes\<close>

text \<open>
  The \<open>DataView\<close> is the list of its bytes. A read of \<open>n\<close> bytes at \<open>byteOffset\<close>
  raises \<open>RangeError\<close> when it does not lie inside the view.
\<close>

type_synonym data_view = "8 word list"

text \<open>
  What a read returns: an integer, or the 64 bits of an IEEE double (the bit pattern
  stands for the number it encodes).
\<close>

datatype read_value = IntVal int | Float64Bits "64 word"

definition view_bytes :: "data_view \<Rightarrow> int \<Rightarrow> nat \<Rightarrow> js_error + 8 word list" where
  "view_bytes dv byteOffset n =
     (if byteOffset < 0 \<or> nat byteOffset + n > length dv then Inl RangeError
      else Inr (take n (drop (nat byteOffset) dv)))"

definition be_nat :: "8 word list \<Rightarrow> nat" where
  "be_nat bs = foldl (\<lambda>acc b. acc * 256 + unat b) 0 bs"

definition ordered_nat :: "bool \<Rightarrow> 8 word list \<Rightarrow> nat" where
  "ordered_nat isLittleEndian bs = be_nat (if isLittleEndian then rev bs else bs)"

definition getUint8 :: "data_view \<Rightarrow> int \<Rightarrow> bool \<Rightarrow> js_error + read_value" where
  "getUint8 dv byteOffset isLittleEndian =
     map_sum id (\<lambda>bs. IntVal (int (ordered_nat isLittleEndian bs))) (view_bytes dv byteOffset 1)"

definition getInt8 :: "data_view \<Rightarrow> int \<Rightarrow> bool \<Rightarrow> js_error + read_value" where
  "getInt8 dv byteOffset isLittleEndian =
     map_sum id (\<lambda>bs. IntVal (sint (word_of_nat (ordered_nat isLittleEndian bs) :: 8 word)))
       (view_bytes dv byteOffset 1)"

definition getUint16 :: "data_view \<Rightarrow> int \<Rightarrow> bool \<Rightarrow> js_error + read_value" where
  "getUint16 dv byteOffset isLittleEndian =
     map_sum id (\<lambda>bs. IntVal (int (ordered_nat isLittleEndian bs))) (view_bytes dv byteOffset 2)"

definition getInt16 :: "data_view \<Rightarrow> int \<Rightarrow> bool \<Rightarrow> js_error + read_value" where
  "getInt16 dv byteOffset isLittleEndian =
     map_sum id (\<lambda>bs. IntVal (sint (word_of_nat (ordered_nat isLittleEndian bs) :: 16 word)))
       (view_bytes dv byteOffset 2)"

definition getUint32 :: "data_view \<Rightarrow> int \<Rightarrow> bool \<Rightarrow> js_error + read_value" where
  "getUint32 dv byteOffset isLittleEndian =
     map_sum id (\<lambda>bs. IntVal (int (ordered_nat isLittleEndian bs))) (view_bytes dv byteOffset 4)"

definition getInt32 :: "data_view \<Rightarrow> int \<Rightarrow> bool \<Rightarrow> js_error + read_value" where
  "getInt32 dv byteOffset isLittleEndian =
     map_sum id (\<lambda>bs. IntVal (sint (word_of_nat (ordered_nat isLittleEndian bs) :: 32 word)))
       (view_bytes dv byteOffset 4)"

definition getFloat64 :: "data_view \<Rightarrow> int \<Rightarrow> bool \<Rightarrow> js_error + read_value" where
  "getFloat64 dv byteOffset isLittleEndian =
     map_sum id (\<lambda>bs. Float64Bits (word_of_nat (ordered_nat isLittleEndian bs)))
       (view_bytes dv byteOffset 8)"

text \<open>
  The operator \<open>>>>\<close> on an integer operand: the operand is taken modulo \<open>2 ^ 32\<close>
  (ToUint32) and shifted right by the count modulo 32, filling with zeros.
\<close>

definition urshift :: "int \<Rightarrow> nat \<Rightarrow> int" where
  "urshift v n = (v mod 2 ^ 32) div 2 ^ (n mod 32)"

fun urshift_value :: "read_value \<Rightarrow> nat \<Rightarrow> read_value" where
  "urshift_value (IntVal v) n = IntVal (urshift v n)"
| "urshift_value (Float64Bits w) n = Float64Bits w"

definition getBytes ::
  "data_view \<Rightarrow> int \<Rightarrow> js_number \<Rightarrow> bool \<Rightarrow> bool \<Rightarrow> js_error + read_value" where
  "getBytes geoTiffData byteOffset numOfBytes isLittleEndian isSigned =
     (if js_le numOfBytes 0 then Inl ArgumentError
      else if js_le numOfBytes 1 then
        (if isSigned then getInt8 geoTiffData byteOffset isLittleEndian
         else getUint8 geoTiffData byteOffset isLittleEndian)
      else if js_le numOfBytes 2 then
        (if isSigned then getInt16 geoTiffData byteOffset isLittleEndian
         else getUint16 geoTiffData byteOffset isLittleEndian)
      else if js_le numOfBytes 3 then
        (if isSigned
         then map_sum id (\<lambda>v. urshift_value v 8) (getInt32 geoTiffData byteOffset isLittleEndian)
         else map_sum id (\<lambda>v. urshift_value v 8) (getUint32 geoTiffData byteOffset isLittleEndian))
      else if js_le numOfBytes 4 then
        (if isSigned then getInt32 geoTiffData byteOffset isLittleEndian
         else getUint32 geoTiffData byteOffset isLittleEndian)
      else if js_le numOfBytes 8 then getFloat64 geoTiffData byteOffset isLittleEndian
      else Inl ArgumentError)"


section \<open>CompassLayer\<close>

text \<open>
  The layer keeps the list of renderables it inherits from \<open>RenderableLayer\<close> and its
  own field \<open>_compass\<close>. The two inherited methods the setter calls,
  \<open>removeAllRenderables\<close> and \<open>addRenderable\<close>, belong to a module that is not among
  the sources; they are parameters acting on the inherited list.
\<close>

record compass_layer =
  renderables :: "js_value list"
  compass_field :: js_value

definition compass_get :: "compass_layer \<Rightarrow> js_value" where
  "compass_get l = compass_field l"

definition compass_set ::
  "(js_value list \<Rightarrow> js_value list) \<Rightarrow> (js_value \<Rightarrow> js_value list \<Rightarrow> js_value list) \<Rightarrow>
   js_value \<Rightarrow> compass_layer \<Rightarrow> compass_layer" where
  "compass_set removeAllRenderables addRenderable compass l =
     (if truthy compass \<and> instanceof compass ''Compass''
      then l\<lparr>renderables := addRenderable compass (removeAllRenderables (renderables l)),
             compass_field := compass\<rparr>
      else l)"

section \<open>GpuResourceCache\<close>

text \<open>
  Modelled from the spec: \<open>GpuResourceCache\<close> (sections 3 and 4.3). The module that
  implements it is not among the sources, which only call it
  (\<open>dc.gpuResourceCache\<close> in \<open>ColladaScene\<close>) and configure its budget
  (\<open>configuration.gpuCacheSize\<close>). The definitions of this section follow the words of
  the specification:
  \<^item> a cache entry is \<open>{key, resource handle, byteSize, lastTouchedFrame}\<close>; the cache
    has a configured byte budget and reads the frame counter the renderer gives it;
  \<^item> \<open>resourceForKey\<close> returns the handle or nothing, and touching a present entry
    sets its recency marker to the current frame;
  \<^item> \<open>putResource\<close> inserts or replaces; a resource larger than the whole budget is
    refused with \<open>CacheOverflow\<close>; if inserting would exceed the budget, entries are
    evicted, least recently touched first and never one touched in the current frame,
    until the budget is satisfied; then the entry is inserted, touched in the current
    frame;
  \<^item> \<open>removeResource\<close> and \<open>clear\<close> release entries; \<open>generateCacheKey\<close> issues a
    fresh token.
  Where the words leave a choice: entries touched in the same frame are evicted in the
  order of their insertion; when no entry that may be evicted is left, eviction stops
  and the entry is inserted (the only refusal the specification names is a resource
  larger than the whole budget); a refused insertion leaves the cache as it was.
\<close>

datatype resource_key = NaturalKey string | GeneratedKey nat

text \<open>
  Modelled from the spec: \<open>CacheOverflow\<close>, the failure of an insertion (section 7);
  the module that raises it is not among the sources.
\<close>

datatype cache_error = CacheOverflow

text \<open>
  Modelled from the spec: \<open>CacheEntry\<close> (section 3), \<open>{key, resource handle, byteSize,
  lastTouchedFrame}\<close>; the module that declares it is not among the sources.
\<close>

record 'r cache_entry =
  key :: resource_key
  resource :: 'r
  byteSize :: nat
  lastTouchedFrame :: nat

text \<open>
  Modelled from the spec: the state of \<open>GpuResourceCache\<close>, which is not among the
  sources: the configured byte budget, the frame counter consumed from the renderer
  (section 6), the entries in the order of their insertion, and the number of tokens
  that \<open>generateCacheKey\<close> has issued.
\<close>

record 'r gpu_resource_cache =
  budget :: nat
  currentFrame :: nat
  entries :: "'r cache_entry list"
  issuedKeys :: nat

text \<open>
  Modelled from the spec: the cache as it is constructed, which is not among the
  sources: no entry, the budget as configured.
\<close>

definition newCache :: "nat \<Rightarrow> 'r gpu_resource_cache" where
  "newCache capacity = \<lparr>budget = capacity, currentFrame = 0, entries = [], issuedKeys = 0\<rparr>"

text \<open>
  Modelled from the spec: the total resident byte size (section 4.3), the sum of
  \<open>byteSize\<close> over the entries; the cache module is not among the sources.
\<close>

definition usedBytes :: "'r cache_entry list \<Rightarrow> nat" where
  "usedBytes es = sum_list (map byteSize es)"

definition residentBytes :: "'r gpu_resource_cache \<Rightarrow> nat" where
  "residentBytes c = usedBytes (entries c)"

text \<open>
  Modelled from the spec: a key is resident when the cache has an entry for it; the
  cache module is not among the sources.
\<close>

definition resident :: "resource_key \<Rightarrow> 'r gpu_resource_cache \<Rightarrow> bool" where
  "resident k c = (k \<in> key ` set (entries c))"

text \<open>
  Modelled from the spec: the release of the entry under a key, and the touch of the
  entry under a key, which sets its recency marker; the cache module is not among the
  sources.
\<close>

definition removeEntry :: "resource_key \<Rightarrow> 'r cache_entry list \<Rightarrow> 'r cache_entry list" where
  "removeEntry k es = filter (\<lambda>e. key e \<noteq> k) es"

definition touchEntry :: "resource_key \<Rightarrow> nat \<Rightarrow> 'r cache_entry list \<Rightarrow> 'r cache_entry list" where
  "touchEntry k frame es =
     map (\<lambda>e. if key e = k then e\<lparr>lastTouchedFrame := frame\<rparr> else e) es"

text \<open>
  Modelled from the spec: the frame counter that the renderer hands to the cache
  (section 6, "frame counter (for recency marking ...)"); the cache module is not among
  the sources.
\<close>

definition setFrame :: "nat \<Rightarrow> 'r gpu_resource_cache \<Rightarrow> 'r gpu_resource_cache" where
  "setFrame frame c = c\<lparr>currentFrame := frame\<rparr>"

text \<open>
  Modelled from the spec: \<open>resourceForKey(key) -> handle or absent\<close>, "touching a
  present entry updates its recency marker"; the cache module is not among the sources.
\<close>

definition resourceForKey ::
  "resource_key \<Rightarrow> 'r gpu_resource_cache \<Rightarrow> 'r option \<times> 'r gpu_resource_cache" where
  "resourceForKey k c =
     (case find (\<lambda>e. key e = k) (entries c) of
        None \<Rightarrow> (None, c)
      | Some e \<Rightarrow> (Some (resource e), c\<lparr>entries := touchEntry k (currentFrame c) (entries c)\<rparr>))"

text \<open>
  Modelled from the spec: the order of eviction of \<open>putResource\<close>, which is not among
  the sources: "least-recently-touched entries (excluding entries touched in the current
  frame ...)". The entries not touched in the current frame, sorted by their recency
  marker; the sort is stable, so entries touched in the same frame keep the order of
  their insertion.
\<close>

definition evictionOrder :: "nat \<Rightarrow> 'r cache_entry list \<Rightarrow> 'r cache_entry list" where
  "evictionOrder frame es =
     sort_key lastTouchedFrame (filter (\<lambda>e. lastTouchedFrame e \<noteq> frame) es)"

text \<open>
  Modelled from the spec: the eviction of \<open>putResource\<close>, which is not among the
  sources: "evicts ... until budget is satisfied". The victims are removed in order,
  each victim itself and no other entry, while the entries and the new resource together
  exceed the budget; eviction ends when they fit or when no victim is left.
\<close>

fun evictUntilFits ::
  "nat \<Rightarrow> nat \<Rightarrow> 'r cache_entry list \<Rightarrow> 'r cache_entry list \<Rightarrow> 'r cache_entry list" where
  "evictUntilFits capacity bytes [] es = es"
| "evictUntilFits capacity bytes (v # vs) es =
     (if usedBytes es + bytes \<le> capacity then es
      else evictUntilFits capacity bytes vs (remove1 v es))"

text \<open>
  Modelled from the spec: \<open>putResource(key, resource, byteSize)\<close>, which is not among
  the sources: "inserts or replaces; if inserting would exceed the configured byte
  budget, evicts least-recently-touched entries (excluding entries touched in the current
  frame ...) until budget is satisfied, then inserts. If a single resource's size exceeds
  the entire budget, insertion fails and is reported as CacheOverflow". The entry under
  the key, if there is one, is released first ("old resource released").
\<close>

definition putResource ::
  "resource_key \<Rightarrow> 'r \<Rightarrow> nat \<Rightarrow> 'r gpu_resource_cache \<Rightarrow>
   (cache_error + unit) \<times> 'r gpu_resource_cache" where
  "putResource k r bytes c =
     (if bytes > budget c then (Inl CacheOverflow, c)
      else
        let released = removeEntry k (entries c);
            kept = evictUntilFits (budget c) bytes (evictionOrder (currentFrame c) released) released
        in (Inr (),
            c\<lparr>entries := kept @ [\<lparr>key = k, resource = r, byteSize = bytes,
                                    lastTouchedFrame = currentFrame c\<rparr>]\<rparr>))"

text \<open>
  Modelled from the spec: \<open>removeResource(key)\<close> and \<open>clear()\<close>, "explicit release";
  the cache module is not among the sources.
\<close>

definition removeResource :: "resource_key \<Rightarrow> 'r gpu_resource_cache \<Rightarrow> 'r gpu_resource_cache" where
  "removeResource k c = c\<lparr>entries := removeEntry k (entries c)\<rparr>"

definition clear :: "'r gpu_resource_cache \<Rightarrow> 'r gpu_resource_cache" where
  "clear c = c\<lparr>entries := []\<rparr>"

text \<open>
  Modelled from the spec: \<open>generateCacheKey() -> ResourceKey\<close>, "issues a fresh unique
  token"; the cache module is not among the sources.
\<close>

definition generateCacheKey :: "'r gpu_resource_cache \<Rightarrow> resource_key \<times> 'r gpu_resource_cache" where
  "generateCacheKey c = (GeneratedKey (issuedKeys c), c\<lparr>issuedKeys := issuedKeys c + 1\<rparr>)"

text \<open>
  A call on the cache, and a sequence of calls. \<open>SetFrame\<close> is the renderer starting a
  frame.
\<close>

datatype 'r cache_call =
  PutResource resource_key 'r nat
| RemoveResource resource_key
| Clear
| ResourceForKey resource_key
| SetFrame nat

fun call :: "'r cache_call \<Rightarrow> 'r gpu_resource_cache \<Rightarrow> 'r gpu_resource_cache" where
  "call (PutResource k r bytes) c = snd (putResource k r bytes c)"
| "call (RemoveResource k) c = removeResource k c"
| "call Clear c = clear c"
| "call (ResourceForKey k) c = snd (resourceForKey k c)"
| "call (SetFrame frame) c = setFrame frame c"

fun calls :: "'r cache_call list \<Rightarrow> 'r gpu_resource_cache \<Rightarrow> 'r gpu_resource_cache" where
  "calls [] c = c"
| "calls (x # xs) c = calls xs (call x c)"

text \<open>
  The bytes of the entries that an insertion under key \<open>k\<close> may not evict: those of the
  other entries touched in the current frame.
\<close>

definition protectedBytes :: "resource_key \<Rightarrow> 'r gpu_resource_cache \<Rightarrow> nat" where
  "protectedBytes k c =
     usedBytes (filter (\<lambda>e. key e \<noteq> k \<and> lastTouchedFrame e = currentFrame c) (entries c))"



text \<open>The entries left when the entries \<open>ws\<close> are removed, one after the other.\<close>

definition dropEntries :: "'r cache_entry list \<Rightarrow> 'r cache_entry list \<Rightarrow> 'r cache_entry list" where
  "dropEntries ws es = fold remove1 ws es"



section \<open>ColladaScene: data\<close>

record position =
  latitude :: real
  longitude :: real
  altitude :: real

type_synonym vec3 = "real \<times> real \<times> real"

text \<open>One element of the \<open>buffers\<close> array of a mesh.\<close>

record mesh_buffer =
  buf_material :: string
  vertices :: "real list"
  uvs :: "real list"
  indices :: "nat list"
  indexedRendering :: bool
  isClamp :: bool

record collada_mesh =
  buffers :: "mesh_buffer list"

record texture_ref =
  mapId :: string

record material_textures =
  diffuse :: "texture_ref option"
  reflective :: "texture_ref option"

record collada_material =
  textures :: "material_textures option"
  techniqueType :: string

record collada_image =
  path :: string
  filename :: string

record node_material =
  symbol :: string
  mat_id :: string

datatype 'm collada_node =
  Node (node_id: string) (node_mesh: "string option") (node_materials: "node_material list")
       (children: "'m collada_node list") (worldMatrix: 'm)

text \<open>
  The objects \<open>meshes\<close>, \<open>materials\<close> and \<open>images\<close> are plain JavaScript
  objects (the constructor sets them to \<open>{}\<close>, \<open>setSceneData\<close> to the parsed scene
  data). The expression \<open>obj[name]\<close> finds a property of the object itself, else a
  member that every object inherits from \<open>Object.prototype\<close>, else it is \<open>undefined\<close>.
  An inherited member is a function (for \<open>__proto__\<close>, the prototype object): it is an
  object without \<open>buffers\<close>, \<open>textures\<close>, \<open>path\<close> or \<open>filename\<close>. An object
  is written as the association list of its own properties.
\<close>

definition objectPrototypeNames :: "string list" where
  "objectPrototypeNames =
     [''constructor'', ''hasOwnProperty'', ''isPrototypeOf'', ''propertyIsEnumerable'',
      ''toLocaleString'', ''toString'', ''valueOf'', ''__proto__'', ''__defineGetter__'',
      ''__defineSetter__'', ''__lookupGetter__'', ''__lookupSetter__'']"

datatype 'a js_property = NoProperty | Inherited string | Own 'a

definition getProperty :: "(string \<times> 'a) list \<Rightarrow> string \<Rightarrow> 'a js_property" where
  "getProperty obj name =
     (case map_of obj name of
        Some v \<Rightarrow> Own v
      | None \<Rightarrow> if name \<in> set objectPrototypeNames then Inherited name else NoProperty)"

text \<open>
  An element of \<open>entities\<close>. Its \<open>material\<close> is what \<open>this.materials[materialKey]\<close>
  gave: a material of the scene, or a member inherited from \<open>Object.prototype\<close>. The fields \<open>textureLoaded\<close>, \<open>vertexOffset\<close>,
  \<open>uvOffset\<close> and \<open>indicesOffset\<close> are added to the object after it is created;
  until then they are \<open>undefined\<close>, which is \<open>False\<close> for the flag (it is only tested
  for truth) and \<open>None\<close> for the offsets.
\<close>

record 'm entity =
  mesh :: mesh_buffer
  material :: "collada_material js_property"
  node :: "'m collada_node"
  texture :: "string option"
  textureLoaded :: bool
  vertexOffset :: "nat option"
  uvOffset :: "nat option"
  indicesOffset :: "nat option"

text \<open>
  The scene. A field \<open>_x\<close> of the source is \<open>x_field\<close>; its getter returns the field.
  The objects \<open>meshes\<close>, \<open>materials\<close> and \<open>images\<close> are the association lists of
  their own properties. \<open>'m\<close> is the matrix type and \<open>'r\<close> the type of the handles
  kept in the GPU resource cache. \<open>allTexturesLoaded\<close> and \<open>partialTexturesLoaded\<close> are
  not set by the constructor: they start \<open>undefined\<close>, here \<open>False\<close>; so does
  \<open>pickColor\<close>, here \<open>None\<close>. The keys \<open>vboCahckeKey\<close> and \<open>iboCahckeKey\<close> and the
  flag \<open>hasIbo\<close> start \<open>null\<close>, here \<open>None\<close>. A pick colour is written as a number.
\<close>

record ('m, 'r) collada_scene =
  entities :: "'m entity list"
  position_field :: position
  nodes_field :: "'m collada_node list"
  meshes_field :: "(string \<times> collada_mesh) list"
  materials_field :: "(string \<times> collada_material) list"
  images_field :: "(string \<times> collada_image) list"
  dirPath_field :: string
  xRotation_field :: real
  yRotation_field :: real
  zRotation_field :: real
  preX :: real
  preY :: real
  preZ :: real
  xTranslation_field :: real
  yTranslation_field :: real
  zTranslation_field :: real
  scale_field :: real
  altitudeMode_field :: string
  localTransforms_field :: bool
  useTexturePaths_field :: bool
  nodesToHide_field :: "string list"
  hideNodes_field :: bool
  placePoint_field :: vec3
  transformationMatrix_field :: 'm
  activeTexture_field :: "'r option"
  mustUpdate :: bool
  allTexturesLoaded :: bool
  partialTexturesLoaded :: bool
  sceneTextureLoaded :: "'r option"
  vboCahckeKey :: "resource_key option"
  iboCahckeKey :: "resource_key option"
  hasIbo :: "bool option"
  greyedOut :: bool
  pickColor :: "nat option"


section \<open>ColladaScene: the setters that mark the scene for update\<close>

definition position_set :: "position \<Rightarrow> ('m, 'r) collada_scene \<Rightarrow> ('m, 'r) collada_scene" where
  "position_set v s = s\<lparr>position_field := v, mustUpdate := True\<rparr>"

definition xRotation_set :: "real \<Rightarrow> ('m, 'r) collada_scene \<Rightarrow> ('m, 'r) collada_scene" where
  "xRotation_set v s = s\<lparr>xRotation_field := v, mustUpdate := True\<rparr>"

definition yRotation_set :: "real \<Rightarrow> ('m, 'r) collada_scene \<Rightarrow> ('m, 'r) collada_scene" where
  "yRotation_set v s = s\<lparr>yRotation_field := v, mustUpdate := True\<rparr>"

definition zRotation_set :: "real \<Rightarrow> ('m, 'r) collada_scene \<Rightarrow> ('m, 'r) collada_scene" where
  "zRotation_set v s = s\<lparr>zRotation_field := v, mustUpdate := True\<rparr>"

definition xTranslation_set :: "real \<Rightarrow> ('m, 'r) collada_scene \<Rightarrow> ('m, 'r) collada_scene" where
  "xTranslation_set v s = s\<lparr>xTranslation_field := v, mustUpdate := True\<rparr>"

definition yTranslation_set :: "real \<Rightarrow> ('m, 'r) collada_scene \<Rightarrow> ('m, 'r) collada_scene" where
  "yTranslation_set v s = s\<lparr>yTranslation_field := v, mustUpdate := True\<rparr>"

definition zTranslation_set :: "real \<Rightarrow> ('m, 'r) collada_scene \<Rightarrow> ('m, 'r) collada_scene" where
  "zTranslation_set v s = s\<lparr>zTranslation_field := v, mustUpdate := True\<rparr>"

definition scale_set :: "real \<Rightarrow> ('m, 'r) collada_scene \<Rightarrow> ('m, 'r) collada_scene" where
  "scale_set v s = s\<lparr>scale_field := v, mustUpdate := True\<rparr>"

definition altitudeMode_set :: "string \<Rightarrow> ('m, 'r) collada_scene \<Rightarrow> ('m, 'r) collada_scene" where
  "altitudeMode_set v s = s\<lparr>altitudeMode_field := v, mustUpdate := True\<rparr>"


section \<open>ColladaScene.computeTransformationMatrix\<close>

text \<open>
  The methods of \<open>Matrix\<close> that the function calls are defined in a module that is not
  among the sources. Each of them updates the matrix it is called on; they are taken as
  parameters, functions from the matrix before the call to the matrix after it.
\<close>

record ('m, 'g) matrix_ops =
  setToIdentity :: "'m \<Rightarrow> 'm"
  multiplyByLocalCoordinateTransform :: "vec3 \<Rightarrow> 'g \<Rightarrow> 'm \<Rightarrow> 'm"
  multiplyByRotation :: "real \<Rightarrow> real \<Rightarrow> real \<Rightarrow> real \<Rightarrow> 'm \<Rightarrow> 'm"
  multiplyByScale :: "real \<Rightarrow> real \<Rightarrow> real \<Rightarrow> 'm \<Rightarrow> 'm"
  multiplyByTranslation :: "real \<Rightarrow> real \<Rightarrow> real \<Rightarrow> 'm \<Rightarrow> 'm"

definition on_matrix ::
  "('m \<Rightarrow> 'm) \<Rightarrow> ('m, 'r) collada_scene \<Rightarrow> ('m, 'r) collada_scene" where
  "on_matrix f s = s\<lparr>transformationMatrix_field := f (transformationMatrix_field s)\<rparr>"

definition computeTransformationMatrix ::
  "('m, 'g) matrix_ops \<Rightarrow> 'g \<Rightarrow> ('m, 'r) collada_scene \<Rightarrow> ('m, 'r) collada_scene" where
  "computeTransformationMatrix M globe s =
     (if \<not> mustUpdate s then s
      else
        let s1 = on_matrix (setToIdentity M) s;
            s2 = on_matrix (multiplyByLocalCoordinateTransform M (placePoint_field s1) globe) s1;
            s3 = on_matrix (multiplyByRotation M 1 0 0 (xRotation_field s2)) s2;
            s4 = on_matrix (multiplyByRotation M 0 1 0 (yRotation_field s3)) s3;
            s5 = on_matrix (multiplyByRotation M 0 0 1 (zRotation_field s4)) s4;
            s6 = on_matrix (multiplyByScale M (scale_field s5) (scale_field s5) (scale_field s5)) s5;
            s7 = on_matrix (multiplyByTranslation M (xTranslation_field s6) (yTranslation_field s6)
                   (zTranslation_field s6)) s6;
            s8 = on_matrix (multiplyByRotation M 1 0 0 (preX s7)) s7;
            s9 = on_matrix (multiplyByRotation M 0 1 0 (preY s8)) s8;
            s10 = on_matrix (multiplyByRotation M 0 0 1 (preZ s9)) s9
        in s10\<lparr>mustUpdate := False\<rparr>)"

section \<open>ColladaScene: a new scene, symbolic matrices\<close>

text \<open>
  A matrix written as the list of the operations applied to it since it was last set to
  the identity. It instantiates the matrix parameters at concrete inputs.
\<close>

datatype matrix_op =
  LocalCoordinateTransform vec3 | Rotation real real real real | Scale real real real
| Translation real real real

definition symbolic_ops :: "(matrix_op list, unit) matrix_ops" where
  "symbolic_ops =
     \<lparr>setToIdentity = (\<lambda>m. []),
      multiplyByLocalCoordinateTransform = (\<lambda>p g m. m @ [LocalCoordinateTransform p]),
      multiplyByRotation = (\<lambda>x y z a m. m @ [Rotation x y z a]),
      multiplyByScale = (\<lambda>x y z m. m @ [Scale x y z]),
      multiplyByTranslation = (\<lambda>x y z m. m @ [Translation x y z])\<rparr>"

text \<open>
  The fields as the constructor leaves them when it is given a position and no scene
  data; \<open>identity\<close> is the value of \<open>Matrix.fromIdentity()\<close>.
\<close>

definition new_scene :: "position \<Rightarrow> 'm \<Rightarrow> ('m, 'r) collada_scene" where
  "new_scene pos identity =
     \<lparr>entities = [], position_field = pos, nodes_field = [], meshes_field = [],
      materials_field = [], images_field = [], dirPath_field = [],
      xRotation_field = 0, yRotation_field = 0, zRotation_field = 0,
      preX = 0, preY = 0, preZ = 0,
      xTranslation_field = 0, yTranslation_field = 0, zTranslation_field = 0,
      scale_field = 1, altitudeMode_field = ''absolute'',
      localTransforms_field = True, useTexturePaths_field = True,
      nodesToHide_field = [], hideNodes_field = False,
      placePoint_field = (0, 0, 0), transformationMatrix_field = identity,
      activeTexture_field = None, mustUpdate = True, allTexturesLoaded = False, partialTexturesLoaded = False,
      sceneTextureLoaded = None, vboCahckeKey = None, iboCahckeKey = None, hasIbo = None,
      greyedOut = False, pickColor = None\<rparr>"

text \<open>
  The matrix that \<open>computeTransformationMatrix\<close> builds, as one expression: the
  operations in the order of the source, innermost first.
\<close>

definition recomputed ::
  "('m, 'g) matrix_ops \<Rightarrow> 'g \<Rightarrow> ('m, 'r) collada_scene \<Rightarrow> 'm" where
  "recomputed M globe s =
     multiplyByRotation M 0 0 1 (preZ s)
      (multiplyByRotation M 0 1 0 (preY s)
        (multiplyByRotation M 1 0 0 (preX s)
          (multiplyByTranslation M (xTranslation_field s) (yTranslation_field s) (zTranslation_field s)
            (multiplyByScale M (scale_field s) (scale_field s) (scale_field s)
              (multiplyByRotation M 0 0 1 (zRotation_field s)
                (multiplyByRotation M 0 1 0 (yRotation_field s)
                  (multiplyByRotation M 1 0 0 (xRotation_field s)
                    (multiplyByLocalCoordinateTransform M (placePoint_field s) globe
                      (setToIdentity M (transformationMatrix_field s))))))))))"

section \<open>ColladaScene.flattenModel\<close>

definition mustRenderNode :: "('m, 'r) collada_scene \<Rightarrow> string \<Rightarrow> bool" where
  "mustRenderNode s nodeId =
     (if hideNodes_field s then nodeId \<notin> set (nodesToHide_field s) else True)"

text \<open>
  The inner loop over \<open>node.materials\<close>. The variable \<open>materialKey\<close> is declared with
  \<open>var\<close>, so it belongs to the whole call of \<open>flattenModel\<close>: it is \<open>undefined\<close> when
  the call starts (\<open>None\<close>) and a buffer whose material matches no symbol keeps the key
  of the buffer before it.
\<close>

definition findMaterialKey :: "node_material list \<Rightarrow> string \<Rightarrow> string option \<Rightarrow> string option" where
  "findMaterialKey mats materialBuf materialKey =
     (case find (\<lambda>m. symbol m = materialBuf) mats of
        Some m \<Rightarrow> Some (mat_id m)
      | None \<Rightarrow> materialKey)"

text \<open>The property name that \<open>this.materials[materialKey]\<close> reads.\<close>

definition propertyName :: "string option \<Rightarrow> string" where
  "propertyName materialKey = (case materialKey of None \<Rightarrow> ''undefined'' | Some k \<Rightarrow> k)"

text \<open>
  The variable \<open>imageKey\<close> for the textures of a material: the \<open>mapId\<close> of the diffuse
  texture, else that of the reflective texture. Reading \<open>mapId\<close> of a missing
  reflective texture raises \<open>TypeError\<close>.
\<close>

definition imageKeyFor :: "material_textures \<Rightarrow> js_error + string" where
  "imageKeyFor t =
     (case diffuse t of
        Some d \<Rightarrow> Inr (mapId d)
      | None \<Rightarrow> (case reflective t of Some r \<Rightarrow> Inr (mapId r) | None \<Rightarrow> Inl TypeError))"

text \<open>
  The variable \<open>image\<close>, as the string that the concatenation makes of it:
  \<open>this.useTexturePaths ? this.images[imageKey].path : this.images[imageKey].filename\<close>.
  Reading \<open>path\<close> of \<open>undefined\<close> raises \<open>TypeError\<close>; a member inherited from
  \<open>Object.prototype\<close> has no \<open>path\<close> and no \<open>filename\<close>, the value is \<open>undefined\<close> and
  the concatenation writes it as \<open>undefined\<close>.
\<close>

definition imageFor :: "('m, 'r) collada_scene \<Rightarrow> string \<Rightarrow> js_error + string" where
  "imageFor s imageKey =
     (case getProperty (images_field s) imageKey of
        NoProperty \<Rightarrow> Inl TypeError
      | Inherited name \<Rightarrow> Inr ''undefined''
      | Own img \<Rightarrow> Inr (if useTexturePaths_field s then path img else filename img))"

text \<open>
  The block that computes \<open>textureCacheKey\<close> from \<open>material\<close>: \<open>null\<close> (\<open>None\<close>) when
  the material has no textures, else \<open>this.dirPath + image + ""\<close>. Reading \<open>textures\<close>
  of \<open>undefined\<close> raises \<open>TypeError\<close>; a member inherited from \<open>Object.prototype\<close> has
  no \<open>textures\<close>.
\<close>

definition textureCacheKeyFor ::
  "('m, 'r) collada_scene \<Rightarrow> collada_material js_property \<Rightarrow> js_error + string option" where
  "textureCacheKeyFor s mtl =
     (case mtl of
        NoProperty \<Rightarrow> Inl TypeError
      | Inherited name \<Rightarrow> Inr None
      | Own mat \<Rightarrow>
          (case textures mat of
             None \<Rightarrow> Inr None
           | Some t \<Rightarrow>
               (case imageKeyFor t of
                  Inl e \<Rightarrow> Inl e
                | Inr imageKey \<Rightarrow>
                    (case imageFor s imageKey of
                       Inl e \<Rightarrow> Inl e
                     | Inr imageName \<Rightarrow> Inr (Some (dirPath_field s @ imageName))))))"

text \<open>The loop over the buffers of the node's mesh.\<close>

fun flattenBuffers ::
  "('m, 'r) collada_scene \<Rightarrow> 'm collada_node \<Rightarrow> mesh_buffer list \<Rightarrow> string option \<Rightarrow>
   'm entity list \<Rightarrow> js_error + 'm entity list" where
  "flattenBuffers s nd [] materialKey es = Inr es"
| "flattenBuffers s nd (b # bs) materialKey es =
     (let materialKey' = findMaterialKey (node_materials nd) (buf_material b) materialKey;
          mtl = getProperty (materials_field s) (propertyName materialKey')
      in case textureCacheKeyFor s mtl of
           Inl e \<Rightarrow> Inl e
         | Inr textureCacheKey \<Rightarrow>
             flattenBuffers s nd bs materialKey'
               (es @ [\<lparr>mesh = b, material = mtl, node = nd, texture = textureCacheKey,
                       textureLoaded = False, vertexOffset = None, uvOffset = None,
                       indicesOffset = None\<rparr>]))"

text \<open>
  \<open>flattenModel\<close> on a node, and the loop over a list of nodes. The entities pushed so
  far are passed along; an exception ends the traversal. \<open>node.mesh\<close> is tested for
  truth: \<open>null\<close> and the empty string are false. A mesh that is \<open>undefined\<close>, or a
  member inherited from \<open>Object.prototype\<close>, has no \<open>buffers\<close>, and reading the length
  of \<open>undefined\<close> raises \<open>TypeError\<close>.
\<close>

fun flattenModel ::
  "('m, 'r) collada_scene \<Rightarrow> 'm collada_node \<Rightarrow> 'm entity list \<Rightarrow> js_error + 'm entity list"
and flattenNodes ::
  "('m, 'r) collada_scene \<Rightarrow> 'm collada_node list \<Rightarrow> 'm entity list \<Rightarrow> js_error + 'm entity list"
where
  "flattenModel s (Node nid nmesh mats kids wm) es =
     (if mustRenderNode s nid then
        (case (case nmesh of
                 None \<Rightarrow> Inr es
               | Some meshKey \<Rightarrow>
                   (if meshKey = [] then Inr es
                    else (case getProperty (meshes_field s) meshKey of
                            Own m \<Rightarrow> flattenBuffers s (Node nid nmesh mats kids wm) (buffers m) None es
                          | _ \<Rightarrow> Inl TypeError))) of
           Inl e \<Rightarrow> Inl e
         | Inr es' \<Rightarrow> flattenNodes s kids es')
      else Inr es)"
| "flattenNodes s [] es = Inr es"
| "flattenNodes s (n # ns) es =
     (case flattenModel s n es of Inl e \<Rightarrow> Inl e | Inr es' \<Rightarrow> flattenNodes s ns es')"

text \<open>
  Example data: a scene directory \<open>dir\<close> holding one node with one mesh buffer, whose
  material has a diffuse texture stored at \<open>imagePath\<close> relative to the directory.
\<close>

definition texturedNode :: "matrix_op list collada_node" where
  "texturedNode = Node ''n0'' (Some ''mesh0'') [\<lparr>symbol = ''sym0'', mat_id = ''mat0''\<rparr>] [] []"

definition texturedMaterial :: collada_material where
  "texturedMaterial = \<lparr>textures = Some \<lparr>diffuse = Some \<lparr>mapId = ''img0''\<rparr>, reflective = None\<rparr>,
      techniqueType = ''lambert''\<rparr>"

definition texturedScene :: "string \<Rightarrow> string \<Rightarrow> (matrix_op list, nat) collada_scene" where
  "texturedScene dir imagePath =
     (new_scene \<lparr>latitude = 0, longitude = 0, altitude = 0\<rparr> [])
       \<lparr>nodes_field := [texturedNode],
        meshes_field := [(''mesh0'', \<lparr>buffers = [\<lparr>buf_material = ''sym0'', vertices = [0, 0, 0],
            uvs = [0, 0], indices = [], indexedRendering = False, isClamp = False\<rparr>]\<rparr>)],
        materials_field := [(''mat0'', texturedMaterial)],
        images_field := [(''img0'', \<lparr>path = imagePath, filename = ''duck.png''\<rparr>)],
        dirPath_field := dir\<rparr>"

text \<open>
  An entity whose \<open>texture\<close> is the key that \<open>flattenModel\<close> computes for its material
  in scene \<open>s\<close>.
\<close>

definition keyed :: "('m, 'r) collada_scene \<Rightarrow> 'm entity \<Rightarrow> bool" where
  "keyed s e = (textureCacheKeyFor s (material e) = Inr (texture e))"

section \<open>ColladaScene: loading textures and rendering\<close>

text \<open>
  The draw context as far as the scene reads and changes it: the GPU resource cache, the
  picking flag, the globe, the number of buffers that \<open>gl.createBuffer\<close> has made, and
  the calls made on the draw context, the GL context and the current program, in order.
  A call is recorded with the arguments that are targets, handles, flags, sizes and
  offsets; colours, matrices and the contents of buffers are not recorded.
\<close>

datatype buffer_target = ARRAY_BUFFER | ELEMENT_ARRAY_BUFFER

datatype 'r gl_call =
  FindAndBindProgram
| CreateBuffer
| BindBuffer buffer_target "'r option"
| BufferData buffer_target nat
| BufferSubData buffer_target nat nat
| LoadColor
| LoadOpacity
| LoadTextureEnabled bool
| LoadModulateColor bool
| LoadTextureMatrix
| LoadModelviewProjection
| LoadApplyLighting bool
| VertexAttribPointer nat nat nat "nat option"
| EnableVertexAttribArray nat
| DisableVertexAttribArray nat
| DrawElements nat "nat option"
| DrawArrays nat nat

record ('r, 'g) draw_context =
  gpuResourceCache :: "'r gpu_resource_cache"
  pickingMode :: bool
  dcGlobe :: 'g
  buffersCreated :: nat
  glCalls :: "'r gl_call list"

text \<open>
  What the scene calls and no source defines: \<open>retrieveTexture\<close> of the cache (it
  starts the retrieval of a texture and returns the texture when it already has it),
  \<open>bind\<close> of a texture, the handle that \<open>gl.createBuffer\<close> returns for the n-th
  buffer, \<open>uniquePickColor\<close> and \<open>resolvePick\<close> of the draw context, and the methods of
  \<open>Matrix\<close>. They are parameters.
\<close>

record ('m, 'r, 'g) render_ops =
  retrieveTexture :: "string \<Rightarrow> bool \<Rightarrow> 'r gpu_resource_cache \<Rightarrow> 'r option \<times> 'r gpu_resource_cache"
  bind :: "'r \<Rightarrow> bool"
  createBuffer :: "nat \<Rightarrow> 'r"
  uniquePickColor :: "('r, 'g) draw_context \<Rightarrow> nat"
  resolvePick :: "('m, 'r) collada_scene \<Rightarrow> ('r, 'g) draw_context \<Rightarrow> ('r, 'g) draw_context"
  matrices :: "('m, 'g) matrix_ops"

text \<open>A texture key is tested for truth: \<open>null\<close> and the empty string are false.\<close>

definition hasTextureKey :: "string option \<Rightarrow> bool" where
  "hasTextureKey t = (case t of None \<Rightarrow> False | Some k \<Rightarrow> k \<noteq> [])"

text \<open>
  The body of the loop of \<open>loadTextures\<close> for one entity. It returns the entity, the
  scene fields \<open>textureLoaded\<close> and \<open>partialTexturesLoaded\<close>, and the cache.
\<close>

definition loadTexture ::
  "('m, 'r, 'g) render_ops \<Rightarrow> 'm entity \<Rightarrow> 'r option \<times> bool \<times> 'r gpu_resource_cache \<Rightarrow>
   'm entity \<times> 'r option \<times> bool \<times> 'r gpu_resource_cache" where
  "loadTexture R e st =
     (case st of (loaded, partial, cache) \<Rightarrow>
        if \<not> hasTextureKey (texture e) \<or> textureLoaded e then (e, loaded, partial, cache)
        else
          (case resourceForKey (NaturalKey (the (texture e))) cache of
             (Some r, cache') \<Rightarrow> (e\<lparr>textureLoaded := True\<rparr>, Some r, partial, cache')
           | (None, cache') \<Rightarrow>
               (case retrieveTexture R (the (texture e)) (isClamp (mesh e)) cache' of
                  (r, cache'') \<Rightarrow> (e\<lparr>textureLoaded := False\<rparr>, r, False, cache''))))"

fun loadEach ::
  "('m, 'r, 'g) render_ops \<Rightarrow> 'm entity list \<Rightarrow> 'r option \<times> bool \<times> 'r gpu_resource_cache \<Rightarrow>
   'm entity list \<times> 'r option \<times> bool \<times> 'r gpu_resource_cache" where
  "loadEach R [] st = ([], st)"
| "loadEach R (e # es) st =
     (case loadTexture R e st of
        (e', st') \<Rightarrow> (case loadEach R es st' of (es', st'') \<Rightarrow> (e' # es', st'')))"

definition loadTextures ::
  "('m, 'r, 'g) render_ops \<Rightarrow> ('m, 'r) collada_scene \<Rightarrow> ('r, 'g) draw_context \<Rightarrow>
   ('m, 'r) collada_scene \<times> ('r, 'g) draw_context" where
  "loadTextures R s dc =
     (if allTexturesLoaded s then (s, dc)
      else
        (case loadEach R (entities s) (sceneTextureLoaded s, True, gpuResourceCache dc) of
           (es, loaded, partial, cache) \<Rightarrow>
             (s\<lparr>entities := es, sceneTextureLoaded := loaded, partialTexturesLoaded := partial,
                allTexturesLoaded := (if partial then True else allTexturesLoaded s)\<rparr>,
              dc\<lparr>gpuResourceCache := cache\<rparr>)))"

text \<open>
  Modelled from the spec: \<open>resourceForKey\<close> called with a key that may be \<open>null\<close>, as
  \<open>beginDrawing\<close> calls it before the buffers were set up; the cache module is not among
  the sources. \<open>null\<close> is the key of no entry: the lookup returns nothing.
\<close>

definition resourceForKeyOrNull ::
  "resource_key option \<Rightarrow> 'r gpu_resource_cache \<Rightarrow> 'r option \<times> 'r gpu_resource_cache" where
  "resourceForKeyOrNull k c = (case k of None \<Rightarrow> (None, c) | Some k' \<Rightarrow> resourceForKey k' c)"

text \<open>
  \<open>setupBuffers\<close>. The first loop counts the indices and the vertices (with the texture
  coordinates of the entities that have a texture key).
\<close>

definition countIndices :: "'m entity list \<Rightarrow> nat" where
  "countIndices es =
     sum_list (map (\<lambda>e. if indexedRendering (mesh e) then length (indices (mesh e)) else 0) es)"

definition countVertices :: "'m entity list \<Rightarrow> nat" where
  "countVertices es =
     sum_list (map (\<lambda>e. length (vertices (mesh e))
        + (if hasTextureKey (texture e) then length (uvs (mesh e)) else 0)) es)"

text \<open>
  The three loops that fill the buffers. Each takes the offset so far and returns the
  entities with their offsets assigned, the calls of \<open>gl.bufferSubData\<close>, and the offset
  after the loop.
\<close>

fun fillVertices :: "nat \<Rightarrow> 'm entity list \<Rightarrow> 'm entity list \<times> 'r gl_call list \<times> nat" where
  "fillVertices offset [] = ([], [], offset)"
| "fillVertices offset (e # es) =
     (case fillVertices (offset + length (vertices (mesh e))) es of
        (es', subData, offset') \<Rightarrow>
          (e\<lparr>vertexOffset := Some offset\<rparr> # es',
           BufferSubData ARRAY_BUFFER (offset * 4) (length (vertices (mesh e))) # subData, offset'))"

fun fillUvs :: "nat \<Rightarrow> 'm entity list \<Rightarrow> 'm entity list \<times> 'r gl_call list \<times> nat" where
  "fillUvs offset [] = ([], [], offset)"
| "fillUvs offset (e # es) =
     (if hasTextureKey (texture e) then
        (case fillUvs (offset + length (uvs (mesh e))) es of
           (es', subData, offset') \<Rightarrow>
             (e\<lparr>uvOffset := Some offset\<rparr> # es',
              BufferSubData ARRAY_BUFFER (offset * 4) (length (uvs (mesh e))) # subData, offset'))
      else
        (case fillUvs offset es of (es', subData, offset') \<Rightarrow> (e # es', subData, offset')))"

fun fillIndices :: "nat \<Rightarrow> 'm entity list \<Rightarrow> 'm entity list \<times> 'r gl_call list \<times> nat" where
  "fillIndices offset [] = ([], [], offset)"
| "fillIndices offset (e # es) =
     (if indexedRendering (mesh e) then
        (case fillIndices (offset + length (indices (mesh e))) es of
           (es', subData, offset') \<Rightarrow>
             (e\<lparr>indicesOffset := Some offset\<rparr> # es',
              BufferSubData ELEMENT_ARRAY_BUFFER (offset * 2) (length (indices (mesh e))) # subData,
              offset'))
      else
        (case fillIndices offset es of (es', subData, offset') \<Rightarrow> (e # es', subData, offset')))"

text \<open>
  \<open>setupBuffers\<close> as a whole: the vertex buffer is created and filled, the index buffer
  too when there is an index, and both are put into the cache under fresh keys. The
  result of \<open>putResource\<close> is not read.
\<close>

definition setupBuffers ::
  "('m, 'r, 'g) render_ops \<Rightarrow> ('m, 'r) collada_scene \<Rightarrow> ('r, 'g) draw_context \<Rightarrow>
   ('m, 'r) collada_scene \<times> ('r, 'g) draw_context" where
  "setupBuffers R s dc =
     (let numIndices = countIndices (entities s);
          numVertices = countVertices (entities s);
          vbo = createBuffer R (buffersCreated dc);
          (es1, vertexCalls, offset1) = fillVertices 0 (entities s);
          (es2, uvCalls, offset2) = fillUvs offset1 es1;
          ibo = createBuffer R (buffersCreated dc + 1);
          (es3, indexCalls, offset3) = (if numIndices \<noteq> 0 then fillIndices 0 es2 else (es2, [], offset2));
          (vboKey, cache1) = generateCacheKey (gpuResourceCache dc);
          cache2 = snd (putResource vboKey vbo (numVertices * 4) cache1);
          (iboKey, cache3) = generateCacheKey cache2;
          cache4 = snd (putResource iboKey ibo (numIndices * 2) cache3)
      in (s\<lparr>entities := es3,
            vboCahckeKey := Some vboKey,
            iboCahckeKey := (if numIndices \<noteq> 0 then Some iboKey else iboCahckeKey s),
            hasIbo := Some (numIndices \<noteq> 0)\<rparr>,
          dc\<lparr>gpuResourceCache := (if numIndices \<noteq> 0 then cache4 else cache2),
             buffersCreated := buffersCreated dc + (if numIndices \<noteq> 0 then 2 else 1),
             glCalls := glCalls dc
               @ [CreateBuffer, BindBuffer ARRAY_BUFFER (Some vbo),
                  BufferData ARRAY_BUFFER (4 * numVertices)]
               @ vertexCalls @ uvCalls
               @ (if numIndices \<noteq> 0
                  then [CreateBuffer, BindBuffer ELEMENT_ARRAY_BUFFER (Some ibo),
                        BufferData ELEMENT_ARRAY_BUFFER (2 * numIndices)] @ indexCalls
                  else [])\<rparr>))"

text \<open>
  \<open>draw\<close> for one entity, with \<open>applyColor\<close> and \<open>applyMatrix\<close> as the calls they
  make on the current program. \<open>applyMatrix\<close> loads the texture matrix when the entity
  has a texture key and an active texture, and resets \<open>_activeTexture\<close>. An offset that
  was never assigned is \<open>None\<close>.
\<close>

definition applyColor :: "'r gl_call list" where
  "applyColor = [LoadColor, LoadOpacity]"

definition applyMatrix ::
  "bool \<Rightarrow> ('m, 'r) collada_scene \<Rightarrow> ('m, 'r) collada_scene \<times> 'r gl_call list" where
  "applyMatrix hasTexture s =
     (if hasTexture \<and> activeTexture_field s \<noteq> None
      then (s\<lparr>activeTexture_field := None\<rparr>, [LoadTextureMatrix, LoadModelviewProjection])
      else (s, [LoadModelviewProjection]))"

definition drawCall :: "'m entity \<Rightarrow> 'r gl_call" where
  "drawCall e =
     (if indexedRendering (mesh e)
      then DrawElements (length (indices (mesh e))) (map_option (\<lambda>n. n * 2) (indicesOffset e))
      else DrawArrays 0 (length (vertices (mesh e)) div 3))"

definition draw ::
  "('m, 'r, 'g) render_ops \<Rightarrow> 'm entity \<Rightarrow> ('m, 'r) collada_scene \<times> ('r, 'g) draw_context \<Rightarrow>
   ('m, 'r) collada_scene \<times> ('r, 'g) draw_context" where
  "draw R e st =
     (case st of (s, dc) \<Rightarrow>
        let (s1, cache1, textureCalls) =
              (if hasTextureKey (texture e) then
                 (case resourceForKey (NaturalKey (the (texture e))) (gpuResourceCache dc) of
                    (found, cache0) \<Rightarrow>
                      (case (if found = None
                             then retrieveTexture R (the (texture e)) (isClamp (mesh e)) cache0
                             else (found, cache0)) of
                         (active, cache') \<Rightarrow>
                           (s\<lparr>activeTexture_field := active\<rparr>, cache',
                            if (case active of None \<Rightarrow> False | Some t \<Rightarrow> bind R t)
                            then [LoadTextureEnabled True,
                                  VertexAttribPointer 2 2 8 (map_option (\<lambda>n. n * 4) (uvOffset e)),
                                  EnableVertexAttribArray 2, LoadModulateColor (pickingMode dc)]
                            else [LoadTextureEnabled False, DisableVertexAttribArray 2])))
               else (s, gpuResourceCache dc, [LoadTextureEnabled False, DisableVertexAttribArray 2]));
            (s2, matrixCalls) = applyMatrix (hasTextureKey (texture e)) s1
        in (s2,
            dc\<lparr>gpuResourceCache := cache1,
               glCalls := glCalls dc @ applyColor @ textureCalls @ matrixCalls
                 @ [VertexAttribPointer 0 3 12 (map_option (\<lambda>n. n * 4) (vertexOffset e)),
                    drawCall e]\<rparr>))"

text \<open>\<open>drawGreyedOut\<close> for one entity: no texture, a fixed colour.\<close>

definition drawGreyedOut ::
  "'m entity \<Rightarrow> ('m, 'r) collada_scene \<times> ('r, 'g) draw_context \<Rightarrow>
   ('m, 'r) collada_scene \<times> ('r, 'g) draw_context" where
  "drawGreyedOut e st =
     (case st of (s, dc) \<Rightarrow>
        let (s1, matrixCalls) = applyMatrix False s
        in (s1,
            dc\<lparr>glCalls := glCalls dc
                 @ [LoadTextureEnabled False, DisableVertexAttribArray 2, LoadColor, LoadOpacity]
                 @ matrixCalls
                 @ [VertexAttribPointer 0 3 12 (map_option (\<lambda>n. n * 4) (vertexOffset e)),
                    drawCall e]\<rparr>))"

text \<open>The body of the loop of \<open>beginDrawing\<close> over the entities.\<close>

definition drawEntity ::
  "('m, 'r, 'g) render_ops \<Rightarrow> 'm entity \<Rightarrow> ('m, 'r) collada_scene \<times> ('r, 'g) draw_context \<Rightarrow>
   ('m, 'r) collada_scene \<times> ('r, 'g) draw_context" where
  "drawEntity R e st = (if greyedOut (fst st) then drawGreyedOut e st else draw R e st)"

text \<open>
  \<open>beginDrawing\<close>. The buffers are looked up in the cache under the keys of the scene;
  they are set up when \<open>hasIbo\<close> is still \<open>null\<close>, and (again) when the lookup before
  found no vertex buffer, or no index buffer although the scene has one; else the
  buffers found are bound.
\<close>

definition beginDrawing ::
  "('m, 'r, 'g) render_ops \<Rightarrow> ('m, 'r) collada_scene \<Rightarrow> ('r, 'g) draw_context \<Rightarrow>
   ('m, 'r) collada_scene \<times> ('r, 'g) draw_context" where
  "beginDrawing R s dc =
     (let (vboId, cache1) = resourceForKeyOrNull (vboCahckeKey s) (gpuResourceCache dc);
          (iboId, cache2) = resourceForKeyOrNull (iboCahckeKey s) cache1;
          dc1 = dc\<lparr>gpuResourceCache := cache2, glCalls := glCalls dc @ [FindAndBindProgram]\<rparr>;
          (s1, dc2) = (if hasIbo s = None then setupBuffers R s dc1 else (s, dc1));
          (s2, dc3) =
            (if vboId = None \<or> (iboId = None \<and> hasIbo s1 = Some True)
             then setupBuffers R s1 dc2
             else (s1, dc2\<lparr>glCalls := glCalls dc2
                     @ [BindBuffer ARRAY_BUFFER vboId, BindBuffer ELEMENT_ARRAY_BUFFER iboId]\<rparr>));
          dc4 = dc3\<lparr>glCalls := glCalls dc3 @ [EnableVertexAttribArray 0, DisableVertexAttribArray 1]\<rparr>;
          s3 = (if pickingMode dc4 then s2\<lparr>pickColor := Some (uniquePickColor R dc4)\<rparr> else s2);
          s4 = computeTransformationMatrix (matrices R) (dcGlobe dc4) s3
      in fold (drawEntity R) (entities s4) (s4, dc4))"

definition endDrawing ::
  "('m, 'r) collada_scene \<Rightarrow> ('r, 'g) draw_context \<Rightarrow>
   ('m, 'r) collada_scene \<times> ('r, 'g) draw_context" where
  "endDrawing s dc =
     (s, dc\<lparr>glCalls := glCalls dc @ [LoadApplyLighting False, DisableVertexAttribArray 2]\<rparr>)"

definition drawOrderedScene ::
  "('m, 'r, 'g) render_ops \<Rightarrow> ('m, 'r) collada_scene \<Rightarrow> ('r, 'g) draw_context \<Rightarrow>
   ('m, 'r) collada_scene \<times> ('r, 'g) draw_context" where
  "drawOrderedScene R s dc = (case beginDrawing R s dc of (s1, dc1) \<Rightarrow> endDrawing s1 dc1)"

text \<open>
  \<open>renderOrdered\<close>: the textures are looked up, and the scene is drawn only when
  \<open>allTexturesLoaded\<close> is set.
\<close>

definition renderOrdered ::
  "('m, 'r, 'g) render_ops \<Rightarrow> ('m, 'r) collada_scene \<Rightarrow> ('r, 'g) draw_context \<Rightarrow>
   ('m, 'r) collada_scene \<times> ('r, 'g) draw_context" where
  "renderOrdered R s dc =
     (case loadTextures R s dc of
        (s1, dc1) \<Rightarrow>
          if \<not> allTexturesLoaded s1 then (s1, dc1)
          else
            (case drawOrderedScene R s1 dc1 of
               (s2, dc2) \<Rightarrow>
                 if pickingMode dc2 then (s2, resolvePick R s2 dc2) else (s2, dc2)))"

text \<open>The calls that draw: \<open>gl.drawElements\<close> and \<open>gl.drawArrays\<close>.\<close>

fun isDrawCall :: "'r gl_call \<Rightarrow> bool" where
  "isDrawCall (DrawElements n offset) = True"
| "isDrawCall (DrawArrays first n) = True"
| "isDrawCall c = False"

text \<open>
  An entity whose texture \<open>loadTextures\<close> looks up: it has a texture key and its
  texture was not found before. And an entity that needs no lookup, or whose texture the
  lookup finds in the cache \<open>c\<close>.
\<close>

definition awaitsTexture :: "'m entity \<Rightarrow> bool" where
  "awaitsTexture e = (hasTextureKey (texture e) \<and> \<not> textureLoaded e)"

definition textureFound :: "'r gpu_resource_cache \<Rightarrow> 'm entity \<Rightarrow> bool" where
  "textureFound c e =
     (\<not> awaitsTexture e \<or> fst (resourceForKey (NaturalKey (the (texture e))) c) \<noteq> None)"

text \<open>
  Example data. A cache whose \<open>retrieveTexture\<close> only starts a retrieval, textures that
  bind, buffers numbered as they are created, and a scene of two entities: the first has
  a texture, the second has none.
\<close>

definition exampleOps :: "(matrix_op list, nat, unit) render_ops" where
  "exampleOps =
     \<lparr>retrieveTexture = (\<lambda>k w c. (None, c)), bind = (\<lambda>t. True), createBuffer = (\<lambda>n. n),
      uniquePickColor = (\<lambda>dc. 1), resolvePick = (\<lambda>s dc. dc), matrices = symbolic_ops\<rparr>"

definition triangle :: mesh_buffer where
  "triangle = \<lparr>buf_material = ''sym0'', vertices = [0, 0, 0, 1, 0, 0, 0, 1, 0],
      uvs = [0, 0, 1, 0, 0, 1], indices = [], indexedRendering = False, isClamp = False\<rparr>"

definition twoEntityScene :: "(matrix_op list, nat) collada_scene" where
  "twoEntityScene =
     (new_scene \<lparr>latitude = 0, longitude = 0, altitude = 0\<rparr> [])
       \<lparr>entities :=
          [\<lparr>mesh = triangle, material = Own \<lparr>textures = None, techniqueType = ''lambert''\<rparr>,
            node = texturedNode, texture = Some ''models/duck.png'', textureLoaded = False,
            vertexOffset = None, uvOffset = None, indicesOffset = None\<rparr>,
           \<lparr>mesh = triangle, material = Own \<lparr>textures = None, techniqueType = ''lambert''\<rparr>,
            node = texturedNode, texture = None, textureLoaded = False,
            vertexOffset = None, uvOffset = None, indicesOffset = None\<rparr>]\<rparr>"

definition emptyContext :: "(nat, unit) draw_context" where
  "emptyContext = \<lparr>gpuResourceCache = newCache 1000, pickingMode = False, dcGlobe = (),
      buffersCreated = 0, glCalls = []\<rparr>"

text \<open>The same context with the texture of the first entity in the cache.\<close>

definition duckContext :: "(nat, unit) draw_context" where
  "duckContext = emptyContext
     \<lparr>gpuResourceCache := snd (putResource (NaturalKey ''models/duck.png'') 7 100 (newCache 1000))\<rparr>"

section \<open>TileAddress and RetrievalPipeline\<close>

text \<open>
  Modelled from the spec: \<open>TileAddress\<close>, \<open>PendingRequest\<close> and \<open>RetrievalPipeline\<close>
  (sections 3, 4.2, 4.4 and 5). No module with \<open>requestTile\<close> is among the sources. The
  definitions follow the words of the specification:
  \<^item> a pending request is \<open>{address, resourceKey, state}\<close> with state \<open>QUEUED\<close>,
    \<open>IN_FLIGHT\<close>, \<open>DONE\<close> or \<open>FAILED\<close>, one per (source, address) pair; the table of
    requests is the de-duplication table;
  \<^item> \<open>requestTile\<close> returns the existing request when one is \<open>QUEUED\<close> or \<open>IN_FLIGHT\<close>
    for the pair; a request that has failed for good is never retried; otherwise a new
    request is queued;
  \<^item> a worker takes a queued request, which becomes \<open>IN_FLIGHT\<close>, and calls the fetch
    of the source; when the fetch returns bytes the request is \<open>DONE\<close>; on \<open>NotFound\<close>
    or \<open>DecodeError\<close> it is \<open>FAILED\<close>; on \<open>Timeout\<close> or \<open>NetworkUnavailable\<close> it is
    queued again until the configured number of attempts is used, then \<open>FAILED\<close>;
  \<^item> a cancelled request is removed while it is still \<open>QUEUED\<close>, and is left to
    complete when it is \<open>IN_FLIGHT\<close>; \<open>drainCompleted\<close> hands the finished requests to
    the render thread, and a \<open>DONE\<close> request is destroyed once its result is consumed.
  The check-and-insert of \<open>requestTile\<close> is one critical section (section 5), so calls
  from several threads are calls in some order: a run of the pipeline is a sequence of
  events. \<open>inFlight\<close> lists the fetches that have been called and have not returned.
\<close>

text \<open>
  Modelled from the spec: \<open>TileAddress\<close> (section 3), \<open>{level, row, column}\<close>; the
  module that declares it is not among the sources.
\<close>

record tile_address =
  level :: nat
  row :: nat
  column :: nat

text \<open>
  Modelled from the spec: the failure reasons of a fetch (section 4.2) and the states of
  a pending request (section 3); the modules that declare them are not among the
  sources.
\<close>

datatype failure_reason = NetworkUnavailable | NotFound | Timeout | DecodeError

datatype request_state = QUEUED | IN_FLIGHT | DONE | FAILED

type_synonym request_key = "string \<times> tile_address"

text \<open>
  Modelled from the spec: \<open>PendingRequest\<close> (section 3), \<open>{address, resourceKey,
  state}\<close>, with the number of attempts that the retry limit of section 4.4 counts; the
  module that declares it is not among the sources.
\<close>

record pending_request =
  address :: tile_address
  resourceKey :: resource_key
  state :: request_state
  attempts :: nat

text \<open>
  Modelled from the spec: the state of \<open>RetrievalPipeline\<close>, which is not among the
  sources: the \<open>keyFor\<close> of the sources, the configured retry limit, the
  de-duplication table from (source, address) to the pending request, and the fetches in
  flight.
\<close>

record retrieval_pipeline =
  keyFor :: "string \<Rightarrow> tile_address \<Rightarrow> resource_key"
  retryLimit :: nat
  requests :: "request_key \<Rightarrow> pending_request option"
  inFlight :: "request_key list"

text \<open>
  Modelled from the spec: the pipeline as it is constructed, which is not among the
  sources: no request, no fetch in flight.
\<close>

definition newPipeline ::
  "(string \<Rightarrow> tile_address \<Rightarrow> resource_key) \<Rightarrow> nat \<Rightarrow> retrieval_pipeline" where
  "newPipeline kf limit = \<lparr>keyFor = kf, retryLimit = limit, requests = (\<lambda>k. None), inFlight = []\<rparr>"

text \<open>
  Modelled from the spec: \<open>requestTile(address, source)\<close>, which is not among the
  sources: "if a PendingRequest already exists for this (source, address) in QUEUED or
  IN_FLIGHT, returns the existing one". A request that is \<open>FAILED\<close> is returned as it
  is ("recorded per key and never retried automatically"); otherwise a new request is
  queued.
\<close>

definition requestTile ::
  "tile_address \<Rightarrow> string \<Rightarrow> retrieval_pipeline \<Rightarrow> pending_request \<times> retrieval_pipeline" where
  "requestTile addr source p =
     (let fresh = \<lparr>address = addr, resourceKey = keyFor p source addr, state = QUEUED, attempts = 0\<rparr>
      in case requests p (source, addr) of
           None \<Rightarrow> (fresh, p\<lparr>requests := (requests p)((source, addr) \<mapsto> fresh)\<rparr>)
         | Some r \<Rightarrow>
             if state r = QUEUED \<or> state r = IN_FLIGHT then (r, p)
             else if state r = FAILED then (r, p)
             else (fresh, p\<lparr>requests := (requests p)((source, addr) \<mapsto> fresh)\<rparr>))"

text \<open>
  Modelled from the spec: the transition \<open>QUEUED \<rightarrow> IN_FLIGHT\<close> (section 4.4), which
  is not among the sources: a worker takes the queued request of \<open>k\<close> and calls the
  fetch of the source.
\<close>

definition workerStarts :: "request_key \<Rightarrow> retrieval_pipeline \<Rightarrow> retrieval_pipeline" where
  "workerStarts k p =
     (case requests p k of
        None \<Rightarrow> p
      | Some r \<Rightarrow>
          if state r = QUEUED
          then p\<lparr>requests := (requests p)(k \<mapsto> r\<lparr>state := IN_FLIGHT, attempts := attempts r + 1\<rparr>),
                 inFlight := k # inFlight p\<rparr>
          else p)"

text \<open>
  Modelled from the spec: the transient failures (section 7), "Timeout,
  NetworkUnavailable"; the module is not among the sources.
\<close>

definition transient :: "failure_reason \<Rightarrow> bool" where
  "transient f = (f = Timeout \<or> f = NetworkUnavailable)"

text \<open>
  Modelled from the spec: the transitions out of \<open>IN_FLIGHT\<close> (sections 4.4 and 7),
  which are not among the sources: the fetch of the request of \<open>k\<close> returns bytes
  (\<open>DONE\<close>) or a failure (\<open>QUEUED\<close> again while a transient failure has attempts
  left, else \<open>FAILED\<close>).
\<close>

definition fetchReturns ::
  "request_key \<Rightarrow> failure_reason + 8 word list \<Rightarrow> retrieval_pipeline \<Rightarrow> retrieval_pipeline" where
  "fetchReturns k outcome p =
     (case requests p k of
        None \<Rightarrow> p
      | Some r \<Rightarrow>
          if state r = IN_FLIGHT
          then p\<lparr>requests := (requests p)(k \<mapsto> r\<lparr>state :=
                     (case outcome of
                        Inr payload \<Rightarrow> DONE
                      | Inl f \<Rightarrow> if transient f \<and> attempts r < retryLimit p then QUEUED else FAILED)\<rparr>),
                 inFlight := remove1 k (inFlight p)\<rparr>
          else p)"

text \<open>
  Modelled from the spec: cancellation (section 5), which is not among the sources:
  "removed from the worker queue if not yet started; allowed to complete ... if already
  IN_FLIGHT".
\<close>

definition cancelRequest :: "request_key \<Rightarrow> retrieval_pipeline \<Rightarrow> retrieval_pipeline" where
  "cancelRequest k p =
     (case requests p k of
        None \<Rightarrow> p
      | Some r \<Rightarrow> if state r = QUEUED then p\<lparr>requests := (requests p)(k := None)\<rparr> else p)"

text \<open>
  Modelled from the spec: \<open>drainCompleted\<close> (sections 3 and 4.4), which is not among
  the sources, for the requests of the keys \<open>ks\<close> that the render thread consumes: a
  \<open>DONE\<close> request is destroyed, a \<open>FAILED\<close> one stays recorded.
\<close>

definition drainCompleted :: "request_key list \<Rightarrow> retrieval_pipeline \<Rightarrow> retrieval_pipeline" where
  "drainCompleted ks p =
     p\<lparr>requests := (\<lambda>k. case requests p k of
                          None \<Rightarrow> None
                        | Some r \<Rightarrow> if k \<in> set ks \<and> state r = DONE then None else Some r)\<rparr>"

datatype pipeline_event =
  RequestTile tile_address string
| WorkerStarts request_key
| FetchReturns request_key "failure_reason + 8 word list"
| CancelRequest request_key
| DrainCompleted "request_key list"

fun event :: "pipeline_event \<Rightarrow> retrieval_pipeline \<Rightarrow> retrieval_pipeline" where
  "event (RequestTile addr source) p = snd (requestTile addr source p)"
| "event (WorkerStarts k) p = workerStarts k p"
| "event (FetchReturns k outcome) p = fetchReturns k outcome p"
| "event (CancelRequest k) p = cancelRequest k p"
| "event (DrainCompleted ks) p = drainCompleted ks p"

fun events :: "pipeline_event list \<Rightarrow> retrieval_pipeline \<Rightarrow> retrieval_pipeline" where
  "events [] p = p"
| "events (x # xs) p = events xs (event x p)"

text \<open>
  The fetches in flight are those of the requests in state \<open>IN_FLIGHT\<close>, one for each.
\<close>

definition oneFetchEach :: "retrieval_pipeline \<Rightarrow> bool" where
  "oneFetchEach p =
     (\<forall>k. count_list (inFlight p) k
        = (case requests p k of None \<Rightarrow> 0 | Some r \<Rightarrow> if state r = IN_FLIGHT then 1 else 0))"

text \<open>A key for the examples: the source, then level, row and column.\<close>

definition pathKey :: "string \<Rightarrow> tile_address \<Rightarrow> resource_key" where
  "pathKey source addr =
     NaturalKey (source @ ''/'' @ replicate (level addr) CHR ''l'' @ ''/''
       @ replicate (row addr) CHR ''r'' @ ''/'' @ replicate (column addr) CHR ''c'')"

section \<open>Sector and TileLevelSet\<close>

text \<open>
  Modelled from the spec: \<open>Sector\<close>, \<open>Tile\<close> and \<open>TileLevelSet\<close> (sections 2, 3 and
  4.1). The sources only construct layers over a pyramid (\<open>Sector.FULL_SPHERE\<close>, a
  level-zero tile of 45 by 45 degrees, a number of levels, tiles of 256 by 256 pixels);
  the module that computes the tiles is not among them. The definitions follow the words
  of the specification:
  \<^item> a sector is a minimum and a maximum latitude and longitude, in degrees;
  \<^item> the pyramid has a number of levels, a tile pixel size, a geographic extent and a
    resolution per level; the tile count of a level is the level-zero tile count times
    \<open>2 ^ level\<close>, and rows and columns are below it;
  \<^item> the sector of a tile is computed from its address and the geometry of the pyramid,
    and its resolution is the degrees per pixel at its level;
  \<^item> \<open>tilesForSector\<close> selects the coarsest level whose resolution is at most the
    target resolution and returns the addresses of the tiles of that level that
    intersect the sector, in row-major order; a sector that exceeds the extent of the
    pyramid is clipped to it; a sector that spans the antimeridian (its minimum longitude
    is above its maximum longitude) is split into two queries.
  Where the words leave a choice: when no level has a resolution at most the target, no
  level is selected and no tile is returned.
\<close>

text \<open>
  Modelled from the spec: \<open>Sector\<close> (section 3), "min/max latitude & longitude
  (degrees)"; the module that declares it is not among the sources.
\<close>

record sector =
  minLatitude :: real
  maxLatitude :: real
  minLongitude :: real
  maxLongitude :: real

text \<open>
  Modelled from the spec: \<open>TileLevelSet\<close> (section 2), which is not among the sources:
  "number of levels, tile pixel size, geographic extent", and the level-zero tile count
  from which the tile count of a level derives (section 3).
\<close>

record tile_level_set =
  extent :: sector
  levelZeroRows :: nat
  levelZeroColumns :: nat
  numLevels :: nat
  tilePixels :: nat

text \<open>
  Modelled from the spec: the tile count of a level (section 3), "level-0 tile count x
  2^level", and the size of a tile of the level in degrees; the module is not among the
  sources.
\<close>

definition rowsAt :: "tile_level_set \<Rightarrow> nat \<Rightarrow> nat" where
  "rowsAt T l = levelZeroRows T * 2 ^ l"

definition columnsAt :: "tile_level_set \<Rightarrow> nat \<Rightarrow> nat" where
  "columnsAt T l = levelZeroColumns T * 2 ^ l"

definition tileDeltaLatitude :: "tile_level_set \<Rightarrow> nat \<Rightarrow> real" where
  "tileDeltaLatitude T l = (maxLatitude (extent T) - minLatitude (extent T)) / real (rowsAt T l)"

definition tileDeltaLongitude :: "tile_level_set \<Rightarrow> nat \<Rightarrow> real" where
  "tileDeltaLongitude T l =
     (maxLongitude (extent T) - minLongitude (extent T)) / real (columnsAt T l)"

text \<open>
  Modelled from the spec: the resolution of a level (section 3), "degrees/pixel at this
  level": degrees of latitude per pixel of a tile. The module is not among the sources.
\<close>

definition levelResolution :: "tile_level_set \<Rightarrow> nat \<Rightarrow> real" where
  "levelResolution T l = tileDeltaLatitude T l / real (tilePixels T)"

text \<open>
  Modelled from the spec: the sector of a tile (section 3), "computed from address +
  pyramid geometry"; the module is not among the sources.
\<close>

definition tileSector :: "tile_level_set \<Rightarrow> tile_address \<Rightarrow> sector" where
  "tileSector T a =
     \<lparr>minLatitude = minLatitude (extent T) + real (row a) * tileDeltaLatitude T (level a),
      maxLatitude = minLatitude (extent T) + (real (row a) + 1) * tileDeltaLatitude T (level a),
      minLongitude = minLongitude (extent T) + real (column a) * tileDeltaLongitude T (level a),
      maxLongitude = minLongitude (extent T)
        + (real (column a) + 1) * tileDeltaLongitude T (level a)\<rparr>"

text \<open>
  Modelled from the spec: a point of a sector, the clipping of a sector to the extent of
  the pyramid (section 4.1, "sector exceeding the pyramid's configured extent clips to
  it") and the intersection of two sectors; the module is not among the sources.
\<close>

definition sectorContains :: "sector \<Rightarrow> real \<Rightarrow> real \<Rightarrow> bool" where
  "sectorContains S lat lon =
     (minLatitude S \<le> lat \<and> lat \<le> maxLatitude S \<and> minLongitude S \<le> lon \<and> lon \<le> maxLongitude S)"

definition clipTo :: "sector \<Rightarrow> sector \<Rightarrow> sector" where
  "clipTo E S =
     \<lparr>minLatitude = max (minLatitude S) (minLatitude E),
      maxLatitude = min (maxLatitude S) (maxLatitude E),
      minLongitude = max (minLongitude S) (minLongitude E),
      maxLongitude = min (maxLongitude S) (maxLongitude E)\<rparr>"

definition intersects :: "sector \<Rightarrow> sector \<Rightarrow> bool" where
  "intersects A B =
     (max (minLatitude A) (minLatitude B) \<le> min (maxLatitude A) (maxLatitude B)
      \<and> max (minLongitude A) (minLongitude B) \<le> min (maxLongitude A) (maxLongitude B))"

text \<open>
  Modelled from the spec: the selection of the level (section 4.1), which is not among
  the sources: "the coarsest level whose per-tile resolution is <= targetResolution".
  Levels are tried from the coarsest, level 0.
\<close>

definition selectLevel :: "tile_level_set \<Rightarrow> real \<Rightarrow> nat option" where
  "selectLevel T targetResolution =
     find (\<lambda>l. levelResolution T l \<le> targetResolution) [0..<numLevels T]"

text \<open>
  Modelled from the spec: the addresses of a level in the canonical order (section 4.1),
  "row-major within level", and the tiles among them that intersect the sector clipped to
  the extent (section 2, "computes which level/tiles intersect a viewing sector"); the
  module is not among the sources.
\<close>

definition addressesAt :: "tile_level_set \<Rightarrow> nat \<Rightarrow> tile_address list" where
  "addressesAt T l =
     concat (map (\<lambda>r. map (\<lambda>c. \<lparr>level = l, row = r, column = c\<rparr>) [0..<columnsAt T l])
       [0..<rowsAt T l])"

definition coverageQuery :: "tile_level_set \<Rightarrow> nat \<Rightarrow> sector \<Rightarrow> tile_address list" where
  "coverageQuery T l S =
     filter (\<lambda>a. intersects (tileSector T a) (clipTo (extent T) S)) (addressesAt T l)"

text \<open>
  Modelled from the spec: \<open>tilesForSector(sector, targetResolution)\<close> (section 4.1),
  which is not among the sources. A sector whose minimum longitude is above its maximum
  longitude spans the antimeridian and "splits into two coverage queries".
\<close>

definition tilesForSector :: "tile_level_set \<Rightarrow> sector \<Rightarrow> real \<Rightarrow> tile_address list" where
  "tilesForSector T S targetResolution =
     (case selectLevel T targetResolution of
        None \<Rightarrow> []
      | Some l \<Rightarrow>
          if minLongitude S > maxLongitude S
          then coverageQuery T l (S\<lparr>maxLongitude := 180\<rparr>)
             @ coverageQuery T l (S\<lparr>minLongitude := - 180\<rparr>)
          else coverageQuery T l S)"

text \<open>
  Modelled from the spec: the points of a sector (sections 3 and 4.1); the module is not
  among the sources. A sector that spans the antimeridian, its minimum longitude above
  its maximum longitude, has the points of the two sectors it is split into: from its
  minimum longitude to 180 degrees and from -180 degrees to its maximum longitude.
\<close>

definition inSector :: "sector \<Rightarrow> real \<Rightarrow> real \<Rightarrow> bool" where
  "inSector S lat lon =
     (if minLongitude S > maxLongitude S
      then sectorContains (S\<lparr>maxLongitude := 180\<rparr>) lat lon
         \<or> sectorContains (S\<lparr>minLongitude := - 180\<rparr>) lat lon
      else sectorContains S lat lon)"

text \<open>A pyramid with tiles to count and an extent to divide.\<close>

definition pyramidOk :: "tile_level_set \<Rightarrow> bool" where
  "pyramidOk T =
     (0 < levelZeroRows T \<and> 0 < levelZeroColumns T \<and> 0 < tilePixels T
      \<and> minLatitude (extent T) < maxLatitude (extent T)
      \<and> minLongitude (extent T) < maxLongitude (extent T))"

text \<open>
  Example data: a pyramid over the whole globe with one row and two columns at level
  zero, three levels and tiles of 256 pixels; and one over the northern hemisphere.
\<close>

definition globePyramid :: tile_level_set where
  "globePyramid =
     \<lparr>extent = \<lparr>minLatitude = - 90, maxLatitude = 90, minLongitude = - 180, maxLongitude = 180\<rparr>,
      levelZeroRows = 1, levelZeroColumns = 2, numLevels = 3, tilePixels = 256\<rparr>"

definition northPyramid :: tile_level_set where
  "northPyramid =
     \<lparr>extent = \<lparr>minLatitude = 0, maxLatitude = 90, minLongitude = - 180, maxLongitude = 180\<rparr>,
      levelZeroRows = 1, levelZeroColumns = 4, numLevels = 1, tilePixels = 256\<rparr>"

section \<open>Properties of GeoTiffUtil.getBytes\<close>

lemma urshift_bounds: "0 \<le> urshift v 8 \<and> urshift v 8 < 2 ^ 24"
proof -
  define x where "x = v mod 4294967296"
  have a: "0 \<le> x" "x < 4294967296" by (simp_all add: x_def)
  then have "0 \<le> x div 256 \<and> x div 256 < 16777216" by arith
  then show ?thesis by (simp add: urshift_def x_def)
qed

lemma read_not_ArgumentError:
  "getInt8 dv off le \<noteq> Inl ArgumentError" "getUint8 dv off le \<noteq> Inl ArgumentError"
  "getInt16 dv off le \<noteq> Inl ArgumentError" "getUint16 dv off le \<noteq> Inl ArgumentError"
  "getInt32 dv off le \<noteq> Inl ArgumentError" "getUint32 dv off le \<noteq> Inl ArgumentError"
  "getFloat64 dv off le \<noteq> Inl ArgumentError"
  by (simp_all add: getInt8_def getUint8_def getInt16_def getUint16_def getInt32_def
        getUint32_def getFloat64_def view_bytes_def)

lemma map_sum_not_ArgumentError:
  "x \<noteq> Inl ArgumentError \<Longrightarrow> map_sum id f x \<noteq> Inl ArgumentError"
  by (cases x) simp_all

lemma getBytes_throws_iff:
  "(getBytes dv off n le sg = Inl ArgumentError) = (js_le n 0 \<or> js_gt n 8 \<or> n = NaN)"
  by (cases n) (auto simp: getBytes_def read_not_ArgumentError map_sum_not_ArgumentError)

lemma getBytes_float64:
  "js_gt n 4 \<Longrightarrow> js_le n 8 \<Longrightarrow> getBytes dv off n le sg = getFloat64 dv off le"
  by (cases n) (auto simp: getBytes_def)

lemma getBytes_three_signed:
  "getBytes dv off (Num 3) le True = map_sum id (\<lambda>v. urshift_value v 8) (getInt32 dv off le)"
  by (simp add: getBytes_def)

lemma getInt32_IntVal: "getInt32 dv off le = Inr r \<Longrightarrow> \<exists>v. r = IntVal v"
  by (auto simp: getInt32_def view_bytes_def split: if_splits)

lemma getBytes_three_signed_nonneg:
  assumes "getBytes dv off (Num 3) le True = Inr r"
  shows "\<exists>v. r = IntVal v \<and> 0 \<le> v \<and> v < 2 ^ 24"
proof -
  from assms obtain r0 where r0: "getInt32 dv off le = Inr r0" "r = urshift_value r0 8"
    by (cases "getInt32 dv off le") (auto simp: getBytes_three_signed)
  then obtain v0 where "r0 = IntVal v0" using getInt32_IntVal by blast
  with r0 show ?thesis using urshift_bounds [of v0] by simp
qed

text \<open>
  Claim C8, as amended. \<open>getBytes\<close> throws \<open>ArgumentError\<close> exactly when
  \<open>numOfBytes\<close> is at most 0, greater than 8, or NaN. For every \<open>numOfBytes\<close> above 4
  and at most 8 (so for 5, 6, 7 and 8) it is the 64-bit float read, whatever \<open>isSigned\<close>
  is. For \<open>numOfBytes = 3\<close> with \<open>isSigned\<close> true it is the signed 32-bit read
  shifted right by 8 bits with zero fill, and every value it returns is an integer
  from 0 to \<open>2 ^ 24 - 1\<close>, also when the stored value is negative.
\<close>

theorem getBytes_contract:
  "(getBytes dv off n le sg = Inl ArgumentError) = (js_le n 0 \<or> js_gt n 8 \<or> n = NaN)
   \<and> (js_gt n 4 \<and> js_le n 8 \<longrightarrow> getBytes dv off n le sg = getFloat64 dv off le)
   \<and> getBytes dv off (Num 3) le True
       = map_sum id (\<lambda>v. urshift_value v 8) (getInt32 dv off le)
   \<and> (\<forall>r. getBytes dv off (Num 3) le True = Inr r \<longrightarrow> (\<exists>v. r = IntVal v \<and> 0 \<le> v \<and> v < 2 ^ 24))"
  using getBytes_throws_iff [of dv off n le sg] getBytes_float64 [of n dv off le sg]
    getBytes_three_signed [of dv off le] getBytes_three_signed_nonneg [of dv off le]
  by blast

lemma ex_getInt32: "getInt32 [0xFF, 0xFF, 0xFF, 0x80] 0 False = Inr (IntVal (- 128))"
  by (simp add: getInt32_def view_bytes_def ordered_nat_def be_nat_def)

lemma ex_three: "getBytes [0xFF, 0xFF, 0xFF, 0x80] 0 (Num 3) False True = Inr (IntVal 16777215)"
  by (simp add: getBytes_def getInt32_def view_bytes_def ordered_nat_def be_nat_def urshift_def)

lemma ex_five: "getFloat64 [0x3F, 0xF0, 0, 0, 0, 0, 0, 0] 0 False = Inr (Float64Bits 0x3FF0000000000000)"
  by (simp add: getFloat64_def view_bytes_def ordered_nat_def be_nat_def)

text \<open>
  The contract at concrete views: five bytes requested from a view holding the double 1.0,
  and three signed bytes requested where the 32-bit read gives \<open>-128\<close>.
\<close>

theorem getBytes_contract_witness:
  "js_gt (Num 5) 4 \<and> js_le (Num 5) 8
   \<and> getBytes [0x3F, 0xF0, 0, 0, 0, 0, 0, 0] 0 (Num 5) False True
       = Inr (Float64Bits 0x3FF0000000000000)
   \<and> getInt32 [0xFF, 0xFF, 0xFF, 0x80] 0 False = Inr (IntVal (- 128))
   \<and> getBytes [0xFF, 0xFF, 0xFF, 0x80] 0 (Num 3) False True = Inr (IntVal 16777215)
   \<and> (\<exists>v. IntVal 16777215 = IntVal v \<and> 0 \<le> v \<and> v < 2 ^ 24)"
  using getBytes_contract [of "[0x3F, 0xF0, 0, 0, 0, 0, 0, 0]" 0 "Num 5" False True]
    getBytes_contract [of "[0xFF, 0xFF, 0xFF, 0x80]" 0 "Num 3" False True]
    ex_getInt32 ex_three ex_five
  by simp

text \<open>
  Claim C8 as stated fails for NaN: every comparison of the chain is false, the last
  branch throws, and NaN is neither at most 0 nor greater than 8.
\<close>

theorem getBytes_NaN_counterexample:
  "getBytes [] 0 NaN False False = Inl ArgumentError \<and> \<not> (js_le NaN 0 \<or> js_gt NaN 8)"
  by (simp add: getBytes_def)

section \<open>Properties of the CompassLayer setter\<close>

text \<open>
  Claim C9. Where \<open>removeAllRenderables\<close> empties the list of renderables and
  \<open>addRenderable\<close> appends to it: for every value that is null, undefined or not an
  instance of \<open>Compass\<close> the setter leaves the layer (the field \<open>_compass\<close> and the
  renderables) as it was; for every instance \<open>v\<close> of \<open>Compass\<close>, after the setter the
  renderables are exactly \<open>v\<close> and the getter returns \<open>v\<close>.
\<close>

theorem compass_setter_effect:
  assumes "\<And>rs. removeAllRenderables rs = []"
    and "\<And>r rs. addRenderable r rs = rs @ [r]"
  shows "(v = JSNull \<or> v = JSUndefined \<or> \<not> instanceof v ''Compass''
            \<longrightarrow> compass_set removeAllRenderables addRenderable v l = l)
       \<and> (instanceof v ''Compass''
            \<longrightarrow> renderables (compass_set removeAllRenderables addRenderable v l) = [v]
              \<and> compass_get (compass_set removeAllRenderables addRenderable v l) = v)"
proof -
  have inst: "instanceof v ''Compass'' \<Longrightarrow> truthy v" by (cases v) simp_all
  show ?thesis using assms inst by (auto simp: compass_set_def compass_get_def)
qed

text \<open>
  The setter on a layer showing compass 1: given compass 2 it shows compass 2 alone, given
  a string it changes nothing.
\<close>

theorem compass_setter_effect_witness:
  "instanceof (JSObject [''Compass'', ''Renderable''] 2) ''Compass''
   \<and> renderables (compass_set (\<lambda>rs. []) (\<lambda>r rs. rs @ [r]) (JSObject [''Compass'', ''Renderable''] 2)
        \<lparr>renderables = [JSObject [''Compass'', ''Renderable''] 1],
         compass_field = JSObject [''Compass'', ''Renderable''] 1\<rparr>)
      = [JSObject [''Compass'', ''Renderable''] 2]
   \<and> \<not> instanceof (JSString ''north'') ''Compass''
   \<and> compass_set (\<lambda>rs. []) (\<lambda>r rs. rs @ [r]) (JSString ''north'')
        \<lparr>renderables = [JSObject [''Compass'', ''Renderable''] 1],
         compass_field = JSObject [''Compass'', ''Renderable''] 1\<rparr>
      = \<lparr>renderables = [JSObject [''Compass'', ''Renderable''] 1],
         compass_field = JSObject [''Compass'', ''Renderable''] 1\<rparr>"
  using compass_setter_effect [of "\<lambda>rs. []" "\<lambda>r rs. rs @ [r]"
          "JSObject [''Compass'', ''Renderable''] 2"
          "\<lparr>renderables = [JSObject [''Compass'', ''Renderable''] 1],
            compass_field = JSObject [''Compass'', ''Renderable''] 1\<rparr>"]
    compass_setter_effect [of "\<lambda>rs. []" "\<lambda>r rs. rs @ [r]" "JSString ''north''"
          "\<lparr>renderables = [JSObject [''Compass'', ''Renderable''] 1],
            compass_field = JSObject [''Compass'', ''Renderable''] 1\<rparr>"]
  by simp

section \<open>Properties of the update flag of ColladaScene\<close>

text \<open>
  Claim C10. Each of the setters of \<open>position\<close>, \<open>xRotation\<close>, \<open>yRotation\<close>,
  \<open>zRotation\<close>, \<open>xTranslation\<close>, \<open>yTranslation\<close>, \<open>zTranslation\<close>, \<open>scale\<close>
  and \<open>altitudeMode\<close> leaves \<open>mustUpdate\<close> true. When \<open>mustUpdate\<close> is false,
  \<open>computeTransformationMatrix\<close> returns the scene as it was, the transformation matrix
  included. Otherwise it changes two fields only: the transformation matrix becomes the
  matrix recomputed from the identity, and \<open>mustUpdate\<close> becomes false.
\<close>

theorem dirty_flag_protocol:
  "mustUpdate (position_set p s) \<and> mustUpdate (xRotation_set a s)
   \<and> mustUpdate (yRotation_set a s) \<and> mustUpdate (zRotation_set a s)
   \<and> mustUpdate (xTranslation_set a s) \<and> mustUpdate (yTranslation_set a s)
   \<and> mustUpdate (zTranslation_set a s) \<and> mustUpdate (scale_set a s)
   \<and> mustUpdate (altitudeMode_set m s)
   \<and> (\<not> mustUpdate s \<longrightarrow> computeTransformationMatrix M globe s = s)
   \<and> (mustUpdate s \<longrightarrow>
        computeTransformationMatrix M globe s
          = s\<lparr>transformationMatrix_field := recomputed M globe s, mustUpdate := False\<rparr>)"
  by (simp add: position_set_def xRotation_set_def yRotation_set_def zRotation_set_def
        xTranslation_set_def yTranslation_set_def zTranslation_set_def scale_set_def
        altitudeMode_set_def computeTransformationMatrix_def on_matrix_def recomputed_def Let_def)

text \<open>
  The protocol on a newly constructed scene, with matrices written as the operations
  applied since the identity: the first call recomputes and clears the flag, the second
  call returns at once.
\<close>

theorem dirty_flag_protocol_witness:
  "mustUpdate (new_scene \<lparr>latitude = 45, longitude = 9, altitude = 100\<rparr> [Scale 2 2 2]
      :: (matrix_op list, nat) collada_scene)
   \<and> transformationMatrix_field (computeTransformationMatrix symbolic_ops ()
        (new_scene \<lparr>latitude = 45, longitude = 9, altitude = 100\<rparr> [Scale 2 2 2]
          :: (matrix_op list, nat) collada_scene))
      = [LocalCoordinateTransform (0, 0, 0), Rotation 1 0 0 0, Rotation 0 1 0 0, Rotation 0 0 1 0,
         Scale 1 1 1, Translation 0 0 0, Rotation 1 0 0 0, Rotation 0 1 0 0, Rotation 0 0 1 0]
   \<and> \<not> mustUpdate (computeTransformationMatrix symbolic_ops ()
        (new_scene \<lparr>latitude = 45, longitude = 9, altitude = 100\<rparr> [Scale 2 2 2]
          :: (matrix_op list, nat) collada_scene))
   \<and> computeTransformationMatrix symbolic_ops ()
        (computeTransformationMatrix symbolic_ops ()
          (new_scene \<lparr>latitude = 45, longitude = 9, altitude = 100\<rparr> [Scale 2 2 2]
            :: (matrix_op list, nat) collada_scene))
      = computeTransformationMatrix symbolic_ops ()
          (new_scene \<lparr>latitude = 45, longitude = 9, altitude = 100\<rparr> [Scale 2 2 2])"
  using dirty_flag_protocol [of _ "new_scene \<lparr>latitude = 45, longitude = 9, altitude = 100\<rparr> [Scale 2 2 2]
            :: (matrix_op list, nat) collada_scene" _ _ symbolic_ops "()"]
    dirty_flag_protocol [of _ "computeTransformationMatrix symbolic_ops ()
          (new_scene \<lparr>latitude = 45, longitude = 9, altitude = 100\<rparr> [Scale 2 2 2]
            :: (matrix_op list, nat) collada_scene)" _ _ symbolic_ops "()"]
  by (simp add: new_scene_def symbolic_ops_def recomputed_def)

section \<open>Properties of GpuResourceCache\<close>

lemmas cache_defs = putResource_def resourceForKey_def removeResource_def clear_def setFrame_def
  newCache_def removeEntry_def touchEntry_def evictionOrder_def usedBytes_def residentBytes_def
  resident_def protectedBytes_def














lemma putResource_frame [simp]:
  "budget (snd (putResource k r b c)) = budget c"
  "currentFrame (snd (putResource k r b c)) = currentFrame c"
  by (simp_all add: putResource_def Let_def)








lemma call_budget [simp]: "budget (call x c) = budget c"
  by (cases x) (simp_all add: removeResource_def clear_def setFrame_def resourceForKey_def
      split: option.splits)







lemma calls_budget [simp]: "budget (calls xs c) = budget c"
  by (induction xs arbitrary: c) simp_all







lemma find_key_Some:
  "k \<in> key ` set es \<Longrightarrow> \<exists>e \<in> set es. key e = k \<and> find (\<lambda>e. key e = k) es = Some e"
  by (induction es) auto

lemma find_key_None: "k \<notin> key ` set es \<Longrightarrow> find (\<lambda>e. key e = k) es = None"
  by (induction es) auto


lemma resourceForKey_absent: "\<not> resident k c \<Longrightarrow> fst (resourceForKey k c) = None"
  using find_key_None [of k "entries c"] by (simp add: resident_def resourceForKey_def)








lemma dropEntries_Nil [simp]: "dropEntries [] es = es"
  by (simp add: dropEntries_def)







section \<open>Properties of the texture keys of ColladaScene.flattenModel\<close>

lemma textureCacheKeyFor_image:
  "textures mat = Some tx \<Longrightarrow> imageKeyFor tx = Inr imageKey
   \<Longrightarrow> getProperty (images_field s) imageKey = Own img
   \<Longrightarrow> textureCacheKeyFor s (Own mat)
       = Inr (Some (dirPath_field s @ (if useTexturePaths_field s then path img else filename img)))"
  by (simp add: textureCacheKeyFor_def imageFor_def)

lemma textureCacheKeyFor_Some:
  "textureCacheKeyFor s mtl = Inr (Some t) \<Longrightarrow>
   \<exists>mat tx imageKey imageName. mtl = Own mat \<and> textures mat = Some tx
     \<and> imageKeyFor tx = Inr imageKey \<and> imageFor s imageKey = Inr imageName
     \<and> t = dirPath_field s @ imageName"
  by (auto simp: textureCacheKeyFor_def split: js_property.splits option.splits sum.splits)

lemma textureCacheKeyFor_pure:
  "dirPath_field s' = dirPath_field s \<Longrightarrow> useTexturePaths_field s' = useTexturePaths_field s
   \<Longrightarrow> images_field s' = images_field s
   \<Longrightarrow> textureCacheKeyFor s' mtl = textureCacheKeyFor s mtl"
  by (simp add: textureCacheKeyFor_def imageFor_def
      cong: option.case_cong sum.case_cong js_property.case_cong)

text \<open>In one scene two keys are equal exactly when the image strings are.\<close>

lemma textureCacheKeyFor_inj:
  assumes "textures m1 = Some t1" "imageKeyFor t1 = Inr k1" "imageFor s k1 = Inr i1"
      and "textures m2 = Some t2" "imageKeyFor t2 = Inr k2" "imageFor s k2 = Inr i2"
  shows "(textureCacheKeyFor s (Own m1) = textureCacheKeyFor s (Own m2)) = (i1 = i2)"
  using assms by (simp add: textureCacheKeyFor_def)

lemma flattenBuffers_keyed:
  "flattenBuffers s nd bs mk es = Inr es' \<Longrightarrow> list_all (keyed s) es \<Longrightarrow> list_all (keyed s) es'"
proof (induction bs arbitrary: mk es)
  case Nil
  then show ?case by simp
next
  case (Cons b bs)
  then show ?case
    by (auto simp: Let_def keyed_def split: sum.splits)
qed

lemma flatten_keyed:
  "flattenModel s nd es = Inr es' \<Longrightarrow> list_all (keyed s) es \<Longrightarrow> list_all (keyed s) es'"
  "flattenNodes s nds es = Inr es' \<Longrightarrow> list_all (keyed s) es \<Longrightarrow> list_all (keyed s) es'"
proof (induction s nd es and s nds es arbitrary: es' and es' rule: flattenModel_flattenNodes.induct)
  case (1 s nid nmesh mats kids wm es)
  show ?case
  proof (cases "mustRenderNode s nid")
    case False
    then show ?thesis using "1.prems" by simp
  next
    case True
    let ?own = "case nmesh of None \<Rightarrow> Inr es
             | Some meshKey \<Rightarrow>
                 (if meshKey = [] then Inr es
                  else (case getProperty (meshes_field s) meshKey of
                          Own m \<Rightarrow> flattenBuffers s (Node nid nmesh mats kids wm) (buffers m) None es
                        | _ \<Rightarrow> Inl TypeError))"
    from "1.prems"(1) True obtain es1 where own: "?own = Inr es1"
      and kids: "flattenNodes s kids es1 = Inr es'"
      by (auto split: sum.splits)
    have "list_all (keyed s) es1"
      using own "1.prems"(2) flattenBuffers_keyed
      by (auto split: option.splits if_splits js_property.splits)
    then show ?thesis using "1.IH" [OF True own kids] by simp
  qed
next
  case (2 s es)
  then show ?case by simp
next
  case (3 s n ns es)
  then show ?case by (auto split: sum.splits)
qed

text \<open>
  Claim C7, as amended, for the one key derivation among the sources, the texture keys
  that \<open>flattenModel\<close> gives the entities of a Collada scene. The key of a material
  with textures is the scene's \<open>dirPath\<close> followed by the path (the file name when
  \<open>useTexturePaths\<close> is off) of the image that the \<open>mapId\<close> of its diffuse texture, else
  of its reflective texture, names in \<open>images\<close>; a material without textures has no
  key. The key depends on \<open>dirPath\<close>, \<open>useTexturePaths\<close> and \<open>images\<close> only, so it is
  the same whenever it is computed. Within one scene two keys are equal exactly when the
  image strings are. Every entity that \<open>flattenModel\<close> creates carries the key of its
  material. The key has no part that tells scenes apart other than the \<open>dirPath\<close>
  prefix.
\<close>

theorem texture_key_of_scene:
  "(textures mat = Some tx \<and> imageKeyFor tx = Inr imageKey
      \<and> getProperty (images_field s) imageKey = Own img \<longrightarrow>
      textureCacheKeyFor s (Own mat)
        = Inr (Some (dirPath_field s @ (if useTexturePaths_field s then path img else filename img))))
   \<and> (diffuse tx = Some d \<longrightarrow> imageKeyFor tx = Inr (mapId d))
   \<and> (diffuse tx = None \<and> reflective tx = Some rf \<longrightarrow> imageKeyFor tx = Inr (mapId rf))
   \<and> (textures mat = None \<longrightarrow> textureCacheKeyFor s (Own mat) = Inr None)
   \<and> (textureCacheKeyFor s mtl = Inr (Some t) \<longrightarrow>
        (\<exists>mat' tx' imageKey' imageName. mtl = Own mat' \<and> textures mat' = Some tx'
           \<and> imageKeyFor tx' = Inr imageKey' \<and> imageFor s imageKey' = Inr imageName
           \<and> t = dirPath_field s @ imageName))
   \<and> (dirPath_field s' = dirPath_field s \<and> useTexturePaths_field s' = useTexturePaths_field s
        \<and> images_field s' = images_field s \<longrightarrow>
        textureCacheKeyFor s' mtl = textureCacheKeyFor s mtl)
   \<and> (textures m1 = Some t1 \<and> imageKeyFor t1 = Inr k1 \<and> imageFor s k1 = Inr i1
        \<and> textures m2 = Some t2 \<and> imageKeyFor t2 = Inr k2 \<and> imageFor s k2 = Inr i2 \<longrightarrow>
        (textureCacheKeyFor s (Own m1) = textureCacheKeyFor s (Own m2)) = (i1 = i2))
   \<and> (flattenModel s nd [] = Inr es \<longrightarrow> list_all (keyed s) es)"
proof -
  have "diffuse tx = Some d \<longrightarrow> imageKeyFor tx = Inr (mapId d)"
    by (simp add: imageKeyFor_def)
  moreover have "diffuse tx = None \<and> reflective tx = Some rf \<longrightarrow> imageKeyFor tx = Inr (mapId rf)"
    by (simp add: imageKeyFor_def)
  moreover have "textures mat = None \<longrightarrow> textureCacheKeyFor s (Own mat) = Inr None"
    by (simp add: textureCacheKeyFor_def)
  ultimately show ?thesis
    using textureCacheKeyFor_image [of mat tx imageKey s img]
      textureCacheKeyFor_Some [of s mtl t] textureCacheKeyFor_pure [of s' s mtl]
      textureCacheKeyFor_inj [of m1 t1 k1 s i1 m2 t2 k2 i2]
      flatten_keyed(1) [of s nd "[]" es]
    by simp
qed

text \<open>
  The key of the example scene in directory \<open>models/\<close>, also after the scene was
  rotated and with the file name in place of the path, and the entity that
  \<open>flattenModel\<close> creates for its node.
\<close>

theorem texture_key_of_scene_witness:
  "textures texturedMaterial = Some \<lparr>diffuse = Some \<lparr>mapId = ''img0''\<rparr>, reflective = None\<rparr>
   \<and> imageKeyFor \<lparr>diffuse = Some \<lparr>mapId = ''img0''\<rparr>, reflective = None\<rparr> = Inr ''img0''
   \<and> getProperty (images_field (texturedScene ''models/'' ''duck/duck.png'')) ''img0''
       = Own \<lparr>path = ''duck/duck.png'', filename = ''duck.png''\<rparr>
   \<and> textureCacheKeyFor (texturedScene ''models/'' ''duck/duck.png'') (Own texturedMaterial)
       = Inr (Some ''models/duck/duck.png'')
   \<and> textureCacheKeyFor (xRotation_set 90 (texturedScene ''models/'' ''duck/duck.png''))
        (Own texturedMaterial)
       = Inr (Some ''models/duck/duck.png'')
   \<and> textureCacheKeyFor ((texturedScene ''models/'' ''duck/duck.png'')\<lparr>useTexturePaths_field := False\<rparr>)
        (Own texturedMaterial)
       = Inr (Some ''models/duck.png'')
   \<and> map_sum id (map (\<lambda>e. (texture e, keyed (texturedScene ''models/'' ''duck/duck.png'') e)))
        (flattenModel (texturedScene ''models/'' ''duck/duck.png'') texturedNode [])
     = Inr [(Some ''models/duck/duck.png'', True)]"
  using texture_key_of_scene [of texturedMaterial
      "\<lparr>diffuse = Some \<lparr>mapId = ''img0''\<rparr>, reflective = None\<rparr>" "''img0''"
      "texturedScene ''models/'' ''duck/duck.png''"
      "\<lparr>path = ''duck/duck.png'', filename = ''duck.png''\<rparr>" "\<lparr>mapId = ''img0''\<rparr>"
      "\<lparr>mapId = ''img1''\<rparr>"
      "Own texturedMaterial" "''models/duck/duck.png''"
      "xRotation_set 90 (texturedScene ''models/'' ''duck/duck.png'')"
      texturedMaterial "\<lparr>diffuse = Some \<lparr>mapId = ''img0''\<rparr>, reflective = None\<rparr>" "''img0''"
      "''duck/duck.png''"
      texturedMaterial "\<lparr>diffuse = Some \<lparr>mapId = ''img0''\<rparr>, reflective = None\<rparr>" "''img0''"
      "''duck/duck.png''" texturedNode]
  by (simp add: texturedScene_def texturedNode_def texturedMaterial_def new_scene_def
      mustRenderNode_def findMaterialKey_def propertyName_def textureCacheKeyFor_def
      imageKeyFor_def imageFor_def getProperty_def objectPrototypeNames_def keyed_def
      xRotation_set_def)

text \<open>
  Claim C7 as stated fails: two scenes in different directories, \<open>models/\<close> with the
  image \<open>duck/duck.png\<close> and \<open>models/duck/\<close> with the image \<open>duck.png\<close>, give their
  entities the same key.
\<close>

theorem texture_key_collision_counterexample:
  "dirPath_field (texturedScene ''models/'' ''duck/duck.png'')
     \<noteq> dirPath_field (texturedScene ''models/duck/'' ''duck.png'')
   \<and> map_sum id (map texture)
        (flattenModel (texturedScene ''models/'' ''duck/duck.png'') texturedNode [])
     = Inr [Some ''models/duck/duck.png'']
   \<and> map_sum id (map texture)
        (flattenModel (texturedScene ''models/duck/'' ''duck.png'') texturedNode [])
     = Inr [Some ''models/duck/duck.png'']"
  by (simp add: texturedScene_def texturedNode_def texturedMaterial_def new_scene_def
      mustRenderNode_def findMaterialKey_def propertyName_def textureCacheKeyFor_def
      imageKeyFor_def imageFor_def getProperty_def objectPrototypeNames_def)

text \<open>
  Members inherited from \<open>Object.prototype\<close>: a node whose material id is
  \<open>constructor\<close> gets an entity without a texture key; a texture whose \<open>mapId\<close> is
  \<open>toString\<close> gets the key \<open>dirPath\<close> followed by \<open>undefined\<close>; an id that names no
  property raises \<open>TypeError\<close>.
\<close>

lemma inherited_members_example:
  "map_sum id (map (\<lambda>e. (material e, texture e)))
      (flattenModel (texturedScene ''models/'' ''duck/duck.png'')
         (Node ''n0'' (Some ''mesh0'') [\<lparr>symbol = ''sym0'', mat_id = ''constructor''\<rparr>] [] []) [])
     = Inr [(Inherited ''constructor'', None)]
   \<and> textureCacheKeyFor (texturedScene ''models/'' ''duck/duck.png'')
        (Own \<lparr>textures = Some \<lparr>diffuse = Some \<lparr>mapId = ''toString''\<rparr>, reflective = None\<rparr>,
              techniqueType = ''lambert''\<rparr>)
     = Inr (Some ''models/undefined'')
   \<and> flattenModel (texturedScene ''models/'' ''duck/duck.png'')
        (Node ''n0'' (Some ''mesh0'') [\<lparr>symbol = ''sym0'', mat_id = ''mat1''\<rparr>] [] []) []
     = Inl TypeError"
  by (simp add: texturedScene_def texturedMaterial_def new_scene_def
      mustRenderNode_def findMaterialKey_def propertyName_def textureCacheKeyFor_def
      imageKeyFor_def imageFor_def getProperty_def objectPrototypeNames_def)

section \<open>Properties of ColladaScene.renderOrdered\<close>

lemmas render_defs = renderOrdered_def loadTextures_def loadTexture_def hasTextureKey_def
  drawOrderedScene_def beginDrawing_def endDrawing_def setupBuffers_def drawEntity_def
  draw_def drawGreyedOut_def applyColor_def applyMatrix_def drawCall_def
  resourceForKeyOrNull_def countIndices_def countVertices_def generateCacheKey_def
  awaitsTexture_def textureFound_def

text \<open>A lookup finds a handle exactly when the key is resident; it changes no residency.\<close>

lemma resourceForKey_found: "(fst (resourceForKey k c) \<noteq> None) = resident k c"
proof (cases "resident k c")
  case True
  then obtain e where "find (\<lambda>e. key e = k) (entries c) = Some e"
    using find_key_Some [of k "entries c"] by (auto simp: resident_def)
  then show ?thesis using True by (simp add: resourceForKey_def)
next
  case False
  then show ?thesis using resourceForKey_absent [of k c] by simp
qed

lemma map_key_touchEntry: "map key (touchEntry k f es) = map key es"
  by (induction es) (simp_all add: touchEntry_def)

lemma resident_resourceForKey: "resident k (snd (resourceForKey k' c)) = resident k c"
proof -
  have "map key (entries (snd (resourceForKey k' c))) = map key (entries c)"
    by (simp add: resourceForKey_def map_key_touchEntry split: option.splits)
  then have "set (map key (entries (snd (resourceForKey k' c)))) = set (map key (entries c))"
    by simp
  then show ?thesis unfolding resident_def set_map by simp
qed

lemma textureFound_resourceForKey: "textureFound (snd (resourceForKey k c)) e = textureFound c e"
  unfolding textureFound_def resourceForKey_found resident_resourceForKey by (rule refl)

text \<open>One entity: the flag of the entity and the flag of the scene follow the lookup.\<close>

lemma loadTexture_flag:
  "textureLoaded (fst (loadTexture R e (l, p, c)))
     = (if awaitsTexture e then fst (resourceForKey (NaturalKey (the (texture e))) c) \<noteq> None
        else textureLoaded e)"
  by (auto simp: loadTexture_def awaitsTexture_def split: prod.splits option.splits)

lemma loadTexture_partial:
  "loadTexture R e (l, p, c) = (e', l', p', c') \<Longrightarrow> p' = (p \<and> textureFound c e)"
  by (auto simp: loadTexture_def textureFound_def awaitsTexture_def
      split: if_splits prod.splits option.splits)

lemma loadTexture_cache:
  assumes "loadTexture R e (l, p, c) = (e', l', p', c')" and "textureFound c e"
  shows "textureFound c' x = textureFound c x"
proof (cases "awaitsTexture e")
  case False
  then have "c' = c" using assms(1) by (auto simp: loadTexture_def awaitsTexture_def)
  then show ?thesis by simp
next
  case True
  then have "fst (resourceForKey (NaturalKey (the (texture e))) c) \<noteq> None"
    using assms(2) by (simp add: textureFound_def)
  then have "c' = snd (resourceForKey (NaturalKey (the (texture e))) c)"
    using assms(1) True
    by (auto simp: loadTexture_def awaitsTexture_def split: prod.splits option.splits)
  then show ?thesis by (simp add: textureFound_resourceForKey)
qed

lemma loadEach_partial:
  "loadEach R es (l, p, c) = (es', l', p', c') \<Longrightarrow> p' = (p \<and> list_all (textureFound c) es)"
proof (induction es arbitrary: l p c es' l' p' c')
  case Nil
  then show ?case by simp
next
  case (Cons e es)
  obtain e1 l1 p1 c1 where one: "loadTexture R e (l, p, c) = (e1, l1, p1, c1)"
    by (metis prod_cases4)
  obtain es2 l2 p2 c2 where rest: "loadEach R es (l1, p1, c1) = (es2, l2, p2, c2)"
    by (metis prod_cases4)
  from Cons.prems one rest have eq: "p' = p2" by simp
  have p1: "p1 = (p \<and> textureFound c e)" using one by (rule loadTexture_partial)
  have p2: "p2 = (p1 \<and> list_all (textureFound c1) es)" using rest by (rule Cons.IH)
  show ?case
  proof (cases "textureFound c e")
    case True
    have "list_all (textureFound c1) es = list_all (textureFound c) es"
      by (simp add: list_all_iff loadTexture_cache [OF one True])
    then show ?thesis using eq p1 p2 True by simp
  next
    case False
    then show ?thesis using eq p1 p2 by simp
  qed
qed

lemma loadTextures_latched: "allTexturesLoaded s \<Longrightarrow> loadTextures R s dc = (s, dc)"
  by (simp add: loadTextures_def)

lemma loadTextures_glCalls: "glCalls (snd (loadTextures R s dc)) = glCalls dc"
  by (simp add: loadTextures_def split: prod.splits)

lemma loadTextures_all:
  assumes "\<not> allTexturesLoaded s"
  shows "allTexturesLoaded (fst (loadTextures R s dc))
     = list_all (textureFound (gpuResourceCache dc)) (entities s)"
proof -
  obtain es l p c where run:
    "loadEach R (entities s) (sceneTextureLoaded s, True, gpuResourceCache dc) = (es, l, p, c)"
    by (metis prod_cases4)
  then have "p = list_all (textureFound (gpuResourceCache dc)) (entities s)"
    using loadEach_partial by fastforce
  then show ?thesis using assms run by (simp add: loadTextures_def)
qed

lemma renderOrdered_gate:
  "\<not> allTexturesLoaded (fst (loadTextures R s dc)) \<Longrightarrow> renderOrdered R s dc = loadTextures R s dc"
  by (cases "loadTextures R s dc") (simp add: renderOrdered_def)

lemma renderOrdered_shown:
  "allTexturesLoaded (fst (loadTextures R s dc)) \<Longrightarrow> renderOrdered R s dc
     = (case drawOrderedScene R (fst (loadTextures R s dc)) (snd (loadTextures R s dc)) of
          (s2, dc2) \<Rightarrow> if pickingMode dc2 then (s2, resolvePick R s2 dc2) else (s2, dc2))"
  by (cases "loadTextures R s dc") (simp add: renderOrdered_def)

text \<open>The loops that fill the buffers keep the entities but for their offsets, and draw nothing.\<close>

lemma fillVertices_keeps:
  "fillVertices n es = (es', cs, n') \<Longrightarrow>
     map mesh es' = map mesh es \<and> map texture es' = map texture es \<and> filter isDrawCall cs = []"
  by (induction es arbitrary: n es' cs n') (auto split: prod.splits)

lemma fillUvs_keeps:
  "fillUvs n es = (es', cs, n') \<Longrightarrow>
     map mesh es' = map mesh es \<and> map texture es' = map texture es \<and> filter isDrawCall cs = []"
  by (induction es arbitrary: n es' cs n') (auto split: prod.splits if_splits)

lemma fillIndices_keeps:
  "fillIndices n es = (es', cs, n') \<Longrightarrow>
     map mesh es' = map mesh es \<and> map texture es' = map texture es \<and> filter isDrawCall cs = []"
  by (induction es arbitrary: n es' cs n') (auto split: prod.splits if_splits)

lemma setupBuffers_keeps:
  "map mesh (entities (fst (setupBuffers R s dc))) = map mesh (entities s)
   \<and> filter isDrawCall (glCalls (snd (setupBuffers R s dc))) = filter isDrawCall (glCalls dc)
   \<and> pickingMode (snd (setupBuffers R s dc)) = pickingMode dc"
proof -
  obtain es1 cs1 n1 where v: "fillVertices 0 (entities s) = (es1, cs1 :: 'b gl_call list, n1)"
    by (metis prod_cases3)
  obtain es2 cs2 n2 where u: "fillUvs n1 es1 = (es2, cs2 :: 'b gl_call list, n2)"
    by (metis prod_cases3)
  obtain es3 cs3 n3 where i: "fillIndices 0 es2 = (es3, cs3 :: 'b gl_call list, n3)"
    by (metis prod_cases3)
  note k = fillVertices_keeps [OF v] fillUvs_keeps [OF u] fillIndices_keeps [OF i]
  show ?thesis using v u i k by (simp add: setupBuffers_def Let_def split: prod.splits)
qed

text \<open>Each entity is drawn by one call, with or without its texture, greyed out or not.\<close>

lemma applyMatrix_calls: "filter isDrawCall (snd (applyMatrix h s)) = []"
  by (simp add: applyMatrix_def)

lemma applyMatrix_entities: "entities (fst (applyMatrix h s)) = entities s"
  by (simp add: applyMatrix_def)

lemma drawCall_isDrawCall [simp]: "isDrawCall (drawCall e)"
  by (simp add: drawCall_def)

lemma draw_calls:
  "filter isDrawCall (glCalls (snd (draw R e st)))
     = filter isDrawCall (glCalls (snd st)) @ [drawCall e]"
  using applyMatrix_calls
  by (cases st)
    (auto simp: draw_def Let_def applyColor_def applyMatrix_def split: prod.splits option.splits)

lemma draw_entities: "entities (fst (draw R e st)) = entities (fst st)"
  by (cases st)
    (auto simp: draw_def Let_def applyMatrix_def split: prod.splits option.splits)

lemma drawGreyedOut_calls:
  "filter isDrawCall (glCalls (snd (drawGreyedOut e st)))
     = filter isDrawCall (glCalls (snd st)) @ [drawCall e]"
  by (cases st) (auto simp: drawGreyedOut_def Let_def applyMatrix_def split: prod.splits)

lemma drawGreyedOut_entities: "entities (fst (drawGreyedOut e st)) = entities (fst st)"
  by (cases st) (auto simp: drawGreyedOut_def Let_def applyMatrix_def split: prod.splits)

lemma drawEntity_calls:
  "filter isDrawCall (glCalls (snd (drawEntity R e st)))
     = filter isDrawCall (glCalls (snd st)) @ [drawCall e]"
  by (simp add: drawEntity_def draw_calls drawGreyedOut_calls)

lemma drawEntity_entities: "entities (fst (drawEntity R e st)) = entities (fst st)"
  by (simp add: drawEntity_def draw_entities drawGreyedOut_entities)

lemma fold_drawEntity:
  "filter isDrawCall (glCalls (snd (fold (drawEntity R) es st)))
     = filter isDrawCall (glCalls (snd st)) @ map drawCall es
   \<and> entities (fst (fold (drawEntity R) es st)) = entities (fst st)"
  by (induction es arbitrary: st) (simp_all add: drawEntity_calls drawEntity_entities)

lemma computeTransformationMatrix_entities:
  "entities (computeTransformationMatrix M g s) = entities s"
  by (simp add: computeTransformationMatrix_def on_matrix_def Let_def)

lemma beginDrawing_draws:
  "filter isDrawCall (glCalls (snd (beginDrawing R s dc)))
     = filter isDrawCall (glCalls dc) @ map drawCall (entities (fst (beginDrawing R s dc)))
   \<and> map mesh (entities (fst (beginDrawing R s dc))) = map mesh (entities s)"
proof -
  obtain vboId cache1 where a: "resourceForKeyOrNull (vboCahckeKey s) (gpuResourceCache dc) = (vboId, cache1)"
    by (metis surj_pair)
  obtain iboId cache2 where b: "resourceForKeyOrNull (iboCahckeKey s) cache1 = (iboId, cache2)"
    by (metis surj_pair)
  define dc1 where "dc1 = dc\<lparr>gpuResourceCache := cache2, glCalls := glCalls dc @ [FindAndBindProgram]\<rparr>"
  obtain s1 dc2 where c: "(if hasIbo s = None then setupBuffers R s dc1 else (s, dc1)) = (s1, dc2)"
    by (metis surj_pair)
  obtain s2 dc3 where d:
    "(if vboId = None \<or> (iboId = None \<and> hasIbo s1 = Some True)
      then setupBuffers R s1 dc2
      else (s1, dc2\<lparr>glCalls := glCalls dc2
              @ [BindBuffer ARRAY_BUFFER vboId, BindBuffer ELEMENT_ARRAY_BUFFER iboId]\<rparr>)) = (s2, dc3)"
    by (metis surj_pair)
  define dc4 where
    "dc4 = dc3\<lparr>glCalls := glCalls dc3 @ [EnableVertexAttribArray 0, DisableVertexAttribArray 1]\<rparr>"
  define s3 where "s3 = (if pickingMode dc4 then s2\<lparr>pickColor := Some (uniquePickColor R dc4)\<rparr> else s2)"
  define s4 where "s4 = computeTransformationMatrix (matrices R) (dcGlobe dc4) s3"
  have run: "beginDrawing R s dc = fold (drawEntity R) (entities s4) (s4, dc4)"
    by (simp only: beginDrawing_def Let_def a b prod.case dc1_def [symmetric] c d
        dc4_def [symmetric] s3_def [symmetric] s4_def [symmetric])
  have k1: "map mesh (entities s1) = map mesh (entities s)
      \<and> filter isDrawCall (glCalls dc2) = filter isDrawCall (glCalls dc)"
    using c setupBuffers_keeps [of R s dc1] by (auto simp: dc1_def split: if_splits)
  have k2: "map mesh (entities s2) = map mesh (entities s1)
      \<and> filter isDrawCall (glCalls dc3) = filter isDrawCall (glCalls dc2)"
    using d setupBuffers_keeps [of R s1 dc2] by (auto split: if_splits)
  have k4: "entities s4 = entities s2"
    by (simp add: s4_def s3_def computeTransformationMatrix_entities)
  have k5: "filter isDrawCall (glCalls dc4) = filter isDrawCall (glCalls dc)"
    using k1 k2 by (simp add: dc4_def)
  show ?thesis
    using fold_drawEntity [of R "entities s4" "(s4, dc4)"] k1 k2 k4 k5 by (simp add: run)
qed

lemma drawOrderedScene_draws:
  "filter isDrawCall (glCalls (snd (drawOrderedScene R s dc)))
     = filter isDrawCall (glCalls dc) @ map drawCall (entities (fst (drawOrderedScene R s dc)))
   \<and> map mesh (entities (fst (drawOrderedScene R s dc))) = map mesh (entities s)"
  using beginDrawing_draws [of R s dc]
  by (cases "beginDrawing R s dc") (simp add: drawOrderedScene_def endDrawing_def)

text \<open>
  Claim C4, as amended. \<open>renderOrdered\<close> returns a scene and a draw context whatever
  the cache holds. \<open>loadTextures\<close> makes no GL call; while a scene is not revealed it
  sets \<open>allTexturesLoaded\<close> exactly when, for every entity with a texture key whose
  texture was not found before, the lookup finds the texture in the cache; the flag of
  an entity follows the lookup of its key. While \<open>allTexturesLoaded\<close> is false after
  \<open>loadTextures\<close>, \<open>renderOrdered\<close> returns there and nothing of the scene is drawn:
  the reveal is all-or-nothing per scene. Once it is set, \<open>loadTextures\<close> does nothing,
  \<open>renderOrdered\<close> draws the scene, and \<open>drawOrderedScene\<close> makes one draw call for
  each entity, whether or not its texture or the buffers are in the cache.
\<close>

theorem scene_shown_when_all_textures_found:
  "(\<not> allTexturesLoaded s \<longrightarrow>
       allTexturesLoaded (fst (loadTextures R s dc))
         = list_all (textureFound (gpuResourceCache dc)) (entities s))
   \<and> (allTexturesLoaded s \<longrightarrow> loadTextures R s dc = (s, dc))
   \<and> textureLoaded (fst (loadTexture R e (l, p, c)))
       = (if awaitsTexture e then fst (resourceForKey (NaturalKey (the (texture e))) c) \<noteq> None
          else textureLoaded e)
   \<and> glCalls (snd (loadTextures R s dc)) = glCalls dc
   \<and> (\<not> allTexturesLoaded (fst (loadTextures R s dc)) \<longrightarrow>
        renderOrdered R s dc = loadTextures R s dc)
   \<and> (allTexturesLoaded (fst (loadTextures R s dc)) \<longrightarrow>
        renderOrdered R s dc
          = (case drawOrderedScene R (fst (loadTextures R s dc)) (snd (loadTextures R s dc)) of
               (s2, dc2) \<Rightarrow> if pickingMode dc2 then (s2, resolvePick R s2 dc2) else (s2, dc2)))
   \<and> filter isDrawCall (glCalls (snd (drawOrderedScene R s dc)))
       = filter isDrawCall (glCalls dc) @ map drawCall (entities (fst (drawOrderedScene R s dc)))
   \<and> map mesh (entities (fst (drawOrderedScene R s dc))) = map mesh (entities s)"
  using loadTextures_all [of s R dc] loadTextures_latched [of s R dc] loadTexture_flag [of R e l p c]
    loadTextures_glCalls [of R s dc] renderOrdered_gate [of R s dc] renderOrdered_shown [of R s dc]
    drawOrderedScene_draws [of R s dc]
  by blast

lemmas example_defs = exampleOps_def twoEntityScene_def emptyContext_def duckContext_def
  new_scene_def triangle_def texturedNode_def symbolic_ops_def computeTransformationMatrix_def
  on_matrix_def

text \<open>
  The scene of two entities. With an empty cache the texture of the first is not found
  and \<open>renderOrdered\<close> stops after \<open>loadTextures\<close>. With the texture in the cache the
  scene is revealed and drawn in the same call: the buffers are set up (twice, since the
  lookup before the first setup found no vertex buffer), the first entity is drawn with
  its texture and the second without.
\<close>

theorem scene_shown_when_all_textures_found_witness:
  "\<not> allTexturesLoaded twoEntityScene
   \<and> map (textureFound (gpuResourceCache emptyContext)) (entities twoEntityScene) = [False, True]
   \<and> \<not> allTexturesLoaded (fst (loadTextures exampleOps twoEntityScene emptyContext))
   \<and> renderOrdered exampleOps twoEntityScene emptyContext
      = loadTextures exampleOps twoEntityScene emptyContext
   \<and> map (textureFound (gpuResourceCache duckContext)) (entities twoEntityScene) = [True, True]
   \<and> allTexturesLoaded (fst (loadTextures exampleOps twoEntityScene duckContext))
   \<and> glCalls (snd (renderOrdered exampleOps twoEntityScene duckContext))
      = [FindAndBindProgram,
         CreateBuffer, BindBuffer ARRAY_BUFFER (Some 0), BufferData ARRAY_BUFFER 96,
         BufferSubData ARRAY_BUFFER 0 9, BufferSubData ARRAY_BUFFER 36 9,
         BufferSubData ARRAY_BUFFER 72 6,
         CreateBuffer, BindBuffer ARRAY_BUFFER (Some 1), BufferData ARRAY_BUFFER 96,
         BufferSubData ARRAY_BUFFER 0 9, BufferSubData ARRAY_BUFFER 36 9,
         BufferSubData ARRAY_BUFFER 72 6,
         EnableVertexAttribArray 0, DisableVertexAttribArray 1,
         LoadColor, LoadOpacity, LoadTextureEnabled True, VertexAttribPointer 2 2 8 (Some 72),
         EnableVertexAttribArray 2, LoadModulateColor False, LoadTextureMatrix,
         LoadModelviewProjection, VertexAttribPointer 0 3 12 (Some 0), DrawArrays 0 3,
         LoadColor, LoadOpacity, LoadTextureEnabled False, DisableVertexAttribArray 2,
         LoadModelviewProjection, VertexAttribPointer 0 3 12 (Some 36), DrawArrays 0 3,
         LoadApplyLighting False, DisableVertexAttribArray 2]"
proof -
  have fresh: "\<not> allTexturesLoaded twoEntityScene"
    by (simp add: example_defs)
  have missing: "map (textureFound (gpuResourceCache emptyContext)) (entities twoEntityScene)
      = [False, True]"
    by (simp add: render_defs example_defs cache_defs)
  have there: "map (textureFound (gpuResourceCache duckContext)) (entities twoEntityScene)
      = [True, True]"
    by (simp add: render_defs example_defs cache_defs)
  have m: "\<not> list_all (textureFound (gpuResourceCache emptyContext)) (entities twoEntityScene)"
    by (simp add: render_defs example_defs cache_defs)
  have t: "list_all (textureFound (gpuResourceCache duckContext)) (entities twoEntityScene)"
    by (simp add: render_defs example_defs cache_defs)
  have hidden: "\<not> allTexturesLoaded (fst (loadTextures exampleOps twoEntityScene emptyContext))"
    using scene_shown_when_all_textures_found [of twoEntityScene exampleOps emptyContext] fresh m
    by simp
  then have stops: "renderOrdered exampleOps twoEntityScene emptyContext
      = loadTextures exampleOps twoEntityScene emptyContext"
    using scene_shown_when_all_textures_found [of twoEntityScene exampleOps emptyContext] by simp
  have shown: "allTexturesLoaded (fst (loadTextures exampleOps twoEntityScene duckContext))"
    using scene_shown_when_all_textures_found [of twoEntityScene exampleOps duckContext] fresh t
    by simp
  have drawn: "glCalls (snd (renderOrdered exampleOps twoEntityScene duckContext))
      = [FindAndBindProgram,
         CreateBuffer, BindBuffer ARRAY_BUFFER (Some 0), BufferData ARRAY_BUFFER 96,
         BufferSubData ARRAY_BUFFER 0 9, BufferSubData ARRAY_BUFFER 36 9,
         BufferSubData ARRAY_BUFFER 72 6,
         CreateBuffer, BindBuffer ARRAY_BUFFER (Some 1), BufferData ARRAY_BUFFER 96,
         BufferSubData ARRAY_BUFFER 0 9, BufferSubData ARRAY_BUFFER 36 9,
         BufferSubData ARRAY_BUFFER 72 6,
         EnableVertexAttribArray 0, DisableVertexAttribArray 1,
         LoadColor, LoadOpacity, LoadTextureEnabled True, VertexAttribPointer 2 2 8 (Some 72),
         EnableVertexAttribArray 2, LoadModulateColor False, LoadTextureMatrix,
         LoadModelviewProjection, VertexAttribPointer 0 3 12 (Some 0), DrawArrays 0 3,
         LoadColor, LoadOpacity, LoadTextureEnabled False, DisableVertexAttribArray 2,
         LoadModelviewProjection, VertexAttribPointer 0 3 12 (Some 36), DrawArrays 0 3,
         LoadApplyLighting False, DisableVertexAttribArray 2]"
    by (simp add: render_defs example_defs cache_defs Let_def)
  show ?thesis using fresh missing hidden stops there shown drawn by blast
qed

text \<open>
  Claim C4 as stated fails. The second entity of the scene has no texture, the texture
  of the first is not in the cache: \<open>renderOrdered\<close> makes no GL call, although
  \<open>drawOrderedScene\<close> on the same scene draws both entities, the first without its
  texture.
\<close>

theorem missing_texture_hides_scene_counterexample:
  "map texture (entities twoEntityScene) = [Some ''models/duck.png'', None]
   \<and> \<not> resident (NaturalKey ''models/duck.png'') (gpuResourceCache emptyContext)
   \<and> glCalls (snd (renderOrdered exampleOps twoEntityScene emptyContext)) = []
   \<and> filter isDrawCall (glCalls (snd (drawOrderedScene exampleOps twoEntityScene emptyContext)))
      = [DrawArrays 0 3, DrawArrays 0 3]"
  by (simp add: render_defs example_defs cache_defs Let_def)

section \<open>Properties of RetrievalPipeline\<close>

lemma count_list_remove1:
  "count_list (remove1 k xs) j = (if j = k \<and> k \<in> set xs then count_list xs j - 1 else count_list xs j)"
  by (induction xs) auto

lemma oneFetchEachD:
  "oneFetchEach p \<Longrightarrow> count_list (inFlight p) k
     = (case requests p k of None \<Rightarrow> 0 | Some r \<Rightarrow> if state r = IN_FLIGHT then 1 else 0)"
  unfolding oneFetchEach_def by blast

lemma requestTile_existing:
  "requests p (source, addr) = Some r \<Longrightarrow> state r = QUEUED \<or> state r = IN_FLIGHT
   \<Longrightarrow> requestTile addr source p = (r, p)"
  by (auto simp: requestTile_def)

lemma requestTile_keeps: "oneFetchEach p \<Longrightarrow> oneFetchEach (snd (requestTile addr source p))"
  by (auto simp: oneFetchEach_def requestTile_def Let_def split: option.splits request_state.splits)

lemma workerStarts_keeps: "oneFetchEach p \<Longrightarrow> oneFetchEach (workerStarts k p)"
  by (auto simp: oneFetchEach_def workerStarts_def split: option.splits)

lemma in_flight_member:
  "oneFetchEach p \<Longrightarrow> requests p k = Some r \<Longrightarrow> state r = IN_FLIGHT \<Longrightarrow> k \<in> set (inFlight p)"
proof -
  assume a: "oneFetchEach p" "requests p k = Some r" "state r = IN_FLIGHT"
  then have "count_list (inFlight p) k = 1" using oneFetchEachD [of p k] by simp
  then show ?thesis by (metis count_list_0_iff zero_neq_one)
qed

lemma fetchReturns_keeps:
  assumes "oneFetchEach p"
  shows "oneFetchEach (fetchReturns k outcome p)"
proof (cases "requests p k")
  case None
  then show ?thesis using assms by (simp add: fetchReturns_def)
next
  case (Some r)
  show ?thesis
  proof (cases "state r = IN_FLIGHT")
    case False
    then show ?thesis using assms Some by (simp add: fetchReturns_def)
  next
    case True
    have mem: "k \<in> set (inFlight p)" using assms Some True by (rule in_flight_member)
    have one: "count_list (inFlight p) k = 1"
      using assms Some True oneFetchEachD [of p k] by simp
    show ?thesis
      using assms Some True mem one
      by (auto simp: oneFetchEach_def fetchReturns_def count_list_remove1 split: sum.splits)
  qed
qed

lemma cancelRequest_keeps: "oneFetchEach p \<Longrightarrow> oneFetchEach (cancelRequest k p)"
  unfolding oneFetchEach_def cancelRequest_def
  by (auto split: option.splits)

lemma drainCompleted_keeps: "oneFetchEach p \<Longrightarrow> oneFetchEach (drainCompleted ks p)"
  unfolding oneFetchEach_def drainCompleted_def
  by (auto split: option.splits)

lemma event_keeps: "oneFetchEach p \<Longrightarrow> oneFetchEach (event x p)"
  by (cases x)
    (simp_all add: requestTile_keeps workerStarts_keeps fetchReturns_keeps cancelRequest_keeps
      drainCompleted_keeps)

lemma events_keep: "oneFetchEach p \<Longrightarrow> oneFetchEach (events xs p)"
  by (induction xs arbitrary: p) (simp_all add: event_keeps)

lemma newPipeline_oneFetchEach: "oneFetchEach (newPipeline kf limit)"
  by (simp add: oneFetchEach_def newPipeline_def)

lemma at_most_one_fetch: "oneFetchEach p \<Longrightarrow> count_list (inFlight p) k \<le> 1"
  using oneFetchEachD [of p k] by (simp split: option.splits)

text \<open>
  Claim C1. When a request for (source, address) is \<open>QUEUED\<close> or \<open>IN_FLIGHT\<close>,
  \<open>requestTile\<close> returns that request and leaves the pipeline as it was, so it starts
  no fetch. After every sequence of events of a new pipeline (calls of \<open>requestTile\<close>
  from any thread, workers starting and fetches returning in any order, cancellations,
  drains), at most one fetch is in flight for every key, and one is in flight exactly when
  the request of the key is \<open>IN_FLIGHT\<close>.
\<close>

theorem one_fetch_per_key:
  "(requests p (source, addr) = Some r \<and> (state r = QUEUED \<or> state r = IN_FLIGHT) \<longrightarrow>
      requestTile addr source p = (r, p))
   \<and> count_list (inFlight (events xs (newPipeline kf limit))) k \<le> 1
   \<and> (count_list (inFlight (events xs (newPipeline kf limit))) k = 1)
       = (\<exists>q. requests (events xs (newPipeline kf limit)) k = Some q \<and> state q = IN_FLIGHT)"
proof -
  have inv: "oneFetchEach (events xs (newPipeline kf limit))"
    by (simp add: events_keep newPipeline_oneFetchEach)
  have "(count_list (inFlight (events xs (newPipeline kf limit))) k = 1)
       = (\<exists>q. requests (events xs (newPipeline kf limit)) k = Some q \<and> state q = IN_FLIGHT)"
    using oneFetchEachD [OF inv, of k] by (auto split: option.splits)
  then show ?thesis
    using requestTile_existing [of p source addr r] at_most_one_fetch [OF inv, of k] by blast
qed

lemmas pipeline_defs = requestTile_def workerStarts_def fetchReturns_def cancelRequest_def
  drainCompleted_def newPipeline_def pathKey_def transient_def

text \<open>
  Three calls of \<open>requestTile\<close> for one tile of one source, with a worker starting
  twice between them: the second and third call return the first request, and one fetch
  is in flight.
\<close>

theorem one_fetch_per_key_witness:
  "requests (events [RequestTile \<lparr>level = 2, row = 1, column = 3\<rparr> ''BMNG256'',
                     WorkerStarts (''BMNG256'', \<lparr>level = 2, row = 1, column = 3\<rparr>)]
              (newPipeline pathKey 3)) (''BMNG256'', \<lparr>level = 2, row = 1, column = 3\<rparr>)
     = Some \<lparr>address = \<lparr>level = 2, row = 1, column = 3\<rparr>,
             resourceKey = NaturalKey ''BMNG256/ll/r/ccc'', state = IN_FLIGHT, attempts = 1\<rparr>
   \<and> fst (requestTile \<lparr>level = 2, row = 1, column = 3\<rparr> ''BMNG256''
        (events [RequestTile \<lparr>level = 2, row = 1, column = 3\<rparr> ''BMNG256'',
                 WorkerStarts (''BMNG256'', \<lparr>level = 2, row = 1, column = 3\<rparr>)]
           (newPipeline pathKey 3)))
     = \<lparr>address = \<lparr>level = 2, row = 1, column = 3\<rparr>,
        resourceKey = NaturalKey ''BMNG256/ll/r/ccc'', state = IN_FLIGHT, attempts = 1\<rparr>
   \<and> inFlight (events [RequestTile \<lparr>level = 2, row = 1, column = 3\<rparr> ''BMNG256'',
                       RequestTile \<lparr>level = 2, row = 1, column = 3\<rparr> ''BMNG256'',
                       WorkerStarts (''BMNG256'', \<lparr>level = 2, row = 1, column = 3\<rparr>),
                       RequestTile \<lparr>level = 2, row = 1, column = 3\<rparr> ''BMNG256'',
                       WorkerStarts (''BMNG256'', \<lparr>level = 2, row = 1, column = 3\<rparr>)]
                (newPipeline pathKey 3))
     = [(''BMNG256'', \<lparr>level = 2, row = 1, column = 3\<rparr>)]"
  using one_fetch_per_key [of
      "events [RequestTile \<lparr>level = 2, row = 1, column = 3\<rparr> ''BMNG256'',
               WorkerStarts (''BMNG256'', \<lparr>level = 2, row = 1, column = 3\<rparr>)]
         (newPipeline pathKey 3)"
      "''BMNG256''" "\<lparr>level = 2, row = 1, column = 3\<rparr>"
      "\<lparr>address = \<lparr>level = 2, row = 1, column = 3\<rparr>,
        resourceKey = NaturalKey ''BMNG256/ll/r/ccc'', state = IN_FLIGHT, attempts = 1\<rparr>"
      "[RequestTile \<lparr>level = 2, row = 1, column = 3\<rparr> ''BMNG256'',
        RequestTile \<lparr>level = 2, row = 1, column = 3\<rparr> ''BMNG256'',
        WorkerStarts (''BMNG256'', \<lparr>level = 2, row = 1, column = 3\<rparr>),
        RequestTile \<lparr>level = 2, row = 1, column = 3\<rparr> ''BMNG256'',
        WorkerStarts (''BMNG256'', \<lparr>level = 2, row = 1, column = 3\<rparr>)]"
      pathKey 3 "(''BMNG256'', \<lparr>level = 2, row = 1, column = 3\<rparr>)"]
  by (simp add: pipeline_defs Let_def eval_nat_numeral)

section \<open>Properties of TileLevelSet.tilesForSector\<close>

lemmas levelset_defs = tilesForSector_def selectLevel_def coverageQuery_def addressesAt_def
  intersects_def clipTo_def tileSector_def levelResolution_def tileDeltaLatitude_def
  tileDeltaLongitude_def rowsAt_def columnsAt_def sectorContains_def

text \<open>One axis: the cells of a division of an interval cover it.\<close>

lemma cell_exists:
  fixes lo hi x :: real
  assumes "lo < hi" "0 < n" "lo \<le> x" "x \<le> hi"
  shows "\<exists>i < n. lo + real i * ((hi - lo) / real n) \<le> x
           \<and> x \<le> lo + (real i + 1) * ((hi - lo) / real n)"
proof -
  define d where "d = (hi - lo) / real n"
  have d: "0 < d" using assms by (simp add: d_def)
  have nd: "real n * d = hi - lo" using assms by (simp add: d_def)
  define y where "y = (x - lo) / d"
  have y0: "0 \<le> y" using assms d by (simp add: y_def)
  have yd: "y * d = x - lo" using d by (simp add: y_def)
  have yn: "y \<le> real n"
  proof -
    have "y * d \<le> real n * d" using assms nd yd by simp
    then show ?thesis using d by simp
  qed
  show ?thesis
  proof (cases "y < real n")
    case True
    define i where "i = nat \<lfloor>y\<rfloor>"
    have i1: "real i \<le> y" using y0 by (simp add: i_def)
    have i2: "y < real i + 1" using y0 by (simp add: i_def)
    have "i < n" using i1 True by linarith
    moreover have "lo + real i * d \<le> x"
    proof -
      have "real i * d \<le> y * d" using i1 d by simp
      then show ?thesis using yd by simp
    qed
    moreover have "x \<le> lo + (real i + 1) * d"
    proof -
      have "y * d \<le> (real i + 1) * d" using i2 d by simp
      then show ?thesis using yd by simp
    qed
    ultimately show ?thesis unfolding d_def by blast
  next
    case False
    then have yeq: "y = real n" using yn by simp
    then have x: "x = lo + real n * d" using yd by simp
    define i where "i = n - 1"
    have i: "real i + 1 = real n" "i < n" using assms by (simp_all add: i_def)
    have "lo + real i * d \<le> x"
    proof -
      have "real i * d \<le> real n * d" using i d by simp
      then show ?thesis using x by simp
    qed
    moreover have "x \<le> lo + (real i + 1) * d" using x i by simp
    ultimately show ?thesis using i(2) unfolding d_def by blast
  qed
qed


lemma selectLevel_Some:
  assumes "selectLevel T R = Some l"
  shows "l < numLevels T \<and> levelResolution T l \<le> R \<and> (\<forall>l' < l. R < levelResolution T l')"
proof -
  from assms obtain i where i: "i < length [0..<numLevels T]"
      "levelResolution T ([0..<numLevels T] ! i) \<le> R" "l = [0..<numLevels T] ! i"
      "\<forall>j < i. \<not> levelResolution T ([0..<numLevels T] ! j) \<le> R"
    unfolding selectLevel_def find_Some_iff by blast
  then have "l = i" "i < numLevels T" by simp_all
  moreover have "R < levelResolution T l'" if "l' < i" for l'
    using i(4) that \<open>i < numLevels T\<close> by (auto simp: not_le)
  ultimately show ?thesis using i(2,3) by simp
qed

lemma selectLevel_None:
  "(selectLevel T R = None) = (\<forall>l < numLevels T. R < levelResolution T l)"
  unfolding selectLevel_def find_None_iff by (auto simp: not_le)

lemma set_addressesAt:
  "(a \<in> set (addressesAt T l)) = (level a = l \<and> row a < rowsAt T l \<and> column a < columnsAt T l)"
proof -
  have "(a \<in> set (addressesAt T l))
      = (\<exists>r < rowsAt T l. \<exists>c < columnsAt T l. a = \<lparr>level = l, row = r, column = c\<rparr>)"
  proof
    assume "a \<in> set (addressesAt T l)"
    then show "\<exists>r < rowsAt T l. \<exists>c < columnsAt T l. a = \<lparr>level = l, row = r, column = c\<rparr>"
      by (auto simp: addressesAt_def)
  next
    assume "\<exists>r < rowsAt T l. \<exists>c < columnsAt T l. a = \<lparr>level = l, row = r, column = c\<rparr>"
    then obtain r c where rc: "r < rowsAt T l" "c < columnsAt T l"
        "a = \<lparr>level = l, row = r, column = c\<rparr>" by blast
    have memc: "a \<in> (\<lambda>c. \<lparr>level = l, row = r, column = c\<rparr>) ` {0..<columnsAt T l}"
      using rc(2,3) by simp
    have memr: "r \<in> {0..<rowsAt T l}" using rc(1) by simp
    from memc memr
    have "\<exists>x \<in> {0..<rowsAt T l}.
            a \<in> (\<lambda>c. \<lparr>level = l, row = x, column = c\<rparr>) ` {0..<columnsAt T l}"
      by (rule bexI)
    then show "a \<in> set (addressesAt T l)" by (simp add: addressesAt_def)
  qed
  also have "\<dots> = (level a = l \<and> row a < rowsAt T l \<and> column a < columnsAt T l)"
  proof
    assume "\<exists>r < rowsAt T l. \<exists>c < columnsAt T l. a = \<lparr>level = l, row = r, column = c\<rparr>"
    then show "level a = l \<and> row a < rowsAt T l \<and> column a < columnsAt T l" by auto
  next
    assume h: "level a = l \<and> row a < rowsAt T l \<and> column a < columnsAt T l"
    then have "a = \<lparr>level = l, row = row a, column = column a\<rparr>" by simp
    with h show "\<exists>r < rowsAt T l. \<exists>c < columnsAt T l. a = \<lparr>level = l, row = r, column = c\<rparr>"
      by blast
  qed
  finally show ?thesis .
qed

lemma coverageQuery_level:
  "a \<in> set (coverageQuery T l S) \<Longrightarrow> level a = l \<and> row a < rowsAt T l \<and> column a < columnsAt T l"
  by (simp add: coverageQuery_def set_addressesAt)

lemma coverageQuery_covers:
  assumes ok: "pyramidOk T"
    and inS: "sectorContains S lat lon"
    and inE: "sectorContains (extent T) lat lon"
  shows "\<exists>a \<in> set (coverageQuery T l S). sectorContains (tileSector T a) lat lon"
proof -
  have rows: "0 < rowsAt T l" and cols: "0 < columnsAt T l"
    using ok by (simp_all add: pyramidOk_def rowsAt_def columnsAt_def)
  from ok inE obtain r where r: "r < rowsAt T l"
      "minLatitude (extent T) + real r * tileDeltaLatitude T l \<le> lat"
      "lat \<le> minLatitude (extent T) + (real r + 1) * tileDeltaLatitude T l"
    using cell_exists [of "minLatitude (extent T)" "maxLatitude (extent T)" "rowsAt T l" lat] rows
    by (auto simp: pyramidOk_def sectorContains_def tileDeltaLatitude_def)
  from ok inE obtain c where c: "c < columnsAt T l"
      "minLongitude (extent T) + real c * tileDeltaLongitude T l \<le> lon"
      "lon \<le> minLongitude (extent T) + (real c + 1) * tileDeltaLongitude T l"
    using cell_exists [of "minLongitude (extent T)" "maxLongitude (extent T)" "columnsAt T l" lon] cols
    by (auto simp: pyramidOk_def sectorContains_def tileDeltaLongitude_def)
  let ?a = "\<lparr>level = l, row = r, column = c\<rparr>"
  have inTile: "sectorContains (tileSector T ?a) lat lon"
    using r c by (simp add: sectorContains_def tileSector_def)
  have "intersects (tileSector T ?a) (clipTo (extent T) S)"
    using inTile inS inE by (simp add: intersects_def clipTo_def sectorContains_def)
  moreover have "?a \<in> set (addressesAt T l)" using r(1) c(1) by (simp add: set_addressesAt)
  ultimately have "?a \<in> set (coverageQuery T l S)" by (simp add: coverageQuery_def)
  then show ?thesis using inTile by blast
qed

lemma tilesForSector_covers:
  assumes ok: "pyramidOk T"
    and sel: "selectLevel T R = Some l"
    and inS: "inSector S lat lon"
    and inE: "sectorContains (extent T) lat lon"
  shows "\<exists>a \<in> set (tilesForSector T S R). sectorContains (tileSector T a) lat lon"
proof (cases "minLongitude S > maxLongitude S")
  case False
  then have "sectorContains S lat lon" using inS by (simp add: inSector_def)
  from coverageQuery_covers [OF ok this inE, of l] show ?thesis
    using False sel by (simp add: tilesForSector_def)
next
  case True
  then have "sectorContains (S\<lparr>maxLongitude := 180\<rparr>) lat lon
      \<or> sectorContains (S\<lparr>minLongitude := - 180\<rparr>) lat lon"
    using inS by (simp add: inSector_def)
  then show ?thesis
  proof
    assume "sectorContains (S\<lparr>maxLongitude := 180\<rparr>) lat lon"
    from coverageQuery_covers [OF ok this inE, of l] show ?thesis
      using True sel by (auto simp: tilesForSector_def)
  next
    assume "sectorContains (S\<lparr>minLongitude := - 180\<rparr>) lat lon"
    from coverageQuery_covers [OF ok this inE, of l] show ?thesis
      using True sel by (auto simp: tilesForSector_def)
  qed
qed

lemma tilesForSector_level:
  assumes "selectLevel T R = Some l" and "a \<in> set (tilesForSector T S R)"
  shows "level a = l \<and> row a < rowsAt T l \<and> column a < columnsAt T l"
  using assms coverageQuery_level [of a T l]
  by (auto simp: tilesForSector_def split: if_splits)

text \<open>
  Claim C6, as amended. For a pyramid with tiles and an extent, every sector \<open>S\<close>
  (spanning the antimeridian or not) and every target resolution \<open>R\<close> that some level
  of the pyramid meets: a level is selected, it is a level of the pyramid whose
  resolution is at most \<open>R\<close>, every coarser level has a resolution above \<open>R\<close>, every
  returned address is a tile of that level, and every point of the sector that lies in
  the extent of the pyramid lies in the sector of a returned tile.
\<close>

theorem tiles_cover_clipped_sector:
  "pyramidOk T \<and> (\<exists>l' < numLevels T. levelResolution T l' \<le> R) \<longrightarrow>
     (\<exists>l. selectLevel T R = Some l
        \<and> l < numLevels T \<and> levelResolution T l \<le> R \<and> (\<forall>l' < l. R < levelResolution T l')
        \<and> (\<forall>a \<in> set (tilesForSector T S R).
              level a = l \<and> row a < rowsAt T l \<and> column a < columnsAt T l)
        \<and> (\<forall>lat lon. inSector S lat lon \<and> sectorContains (extent T) lat lon \<longrightarrow>
              (\<exists>a \<in> set (tilesForSector T S R). sectorContains (tileSector T a) lat lon)))"
proof
  assume h: "pyramidOk T \<and> (\<exists>l' < numLevels T. levelResolution T l' \<le> R)"
  then have "selectLevel T R \<noteq> None" by (simp add: selectLevel_None not_less)
  then obtain l where sel: "selectLevel T R = Some l" by blast
  have "l < numLevels T \<and> levelResolution T l \<le> R \<and> (\<forall>l' < l. R < levelResolution T l')"
    by (rule selectLevel_Some [OF sel])
  moreover have "\<forall>a \<in> set (tilesForSector T S R).
      level a = l \<and> row a < rowsAt T l \<and> column a < columnsAt T l"
    using tilesForSector_level [OF sel] by blast
  moreover have "\<forall>lat lon. inSector S lat lon \<and> sectorContains (extent T) lat lon \<longrightarrow>
      (\<exists>a \<in> set (tilesForSector T S R). sectorContains (tileSector T a) lat lon)"
    using tilesForSector_covers [OF _ sel] h by blast
  ultimately show "\<exists>l. selectLevel T R = Some l
        \<and> l < numLevels T \<and> levelResolution T l \<le> R \<and> (\<forall>l' < l. R < levelResolution T l')
        \<and> (\<forall>a \<in> set (tilesForSector T S R).
              level a = l \<and> row a < rowsAt T l \<and> column a < columnsAt T l)
        \<and> (\<forall>lat lon. inSector S lat lon \<and> sectorContains (extent T) lat lon \<longrightarrow>
              (\<exists>a \<in> set (tilesForSector T S R). sectorContains (tileSector T a) lat lon))"
    using sel by blast
qed

text \<open>
  The pyramid over the globe and a target of half a degree per pixel: level 0 is too
  coarse and level 1 is selected. For a sector of five degrees the one tile returned
  contains the sector; for a sector that spans the antimeridian the tiles at both ends
  of the rows are returned.
\<close>

theorem tiles_cover_clipped_sector_witness:
  "pyramidOk globePyramid
   \<and> (1::nat) < numLevels globePyramid
   \<and> levelResolution globePyramid 1 \<le> 1 / 2
   \<and> selectLevel globePyramid (1 / 2) = Some 1
   \<and> 1 / 2 < levelResolution globePyramid 0
   \<and> tilesForSector globePyramid
        \<lparr>minLatitude = 5, maxLatitude = 10, minLongitude = 5, maxLongitude = 10\<rparr> (1 / 2)
      = [\<lparr>level = 1, row = 1, column = 2\<rparr>]
   \<and> inSector \<lparr>minLatitude = 5, maxLatitude = 10, minLongitude = 5, maxLongitude = 10\<rparr> 7 8
   \<and> sectorContains (tileSector globePyramid \<lparr>level = 1, row = 1, column = 2\<rparr>) 7 8
   \<and> tilesForSector globePyramid
        \<lparr>minLatitude = 5, maxLatitude = 10, minLongitude = 170, maxLongitude = - 170\<rparr> (1 / 2)
      = [\<lparr>level = 1, row = 1, column = 3\<rparr>, \<lparr>level = 1, row = 1, column = 0\<rparr>]
   \<and> inSector \<lparr>minLatitude = 5, maxLatitude = 10, minLongitude = 170, maxLongitude = - 170\<rparr>
        7 (- 175)
   \<and> sectorContains (tileSector globePyramid \<lparr>level = 1, row = 1, column = 0\<rparr>) 7 (- 175)"
proof -
  let ?S = "\<lparr>minLatitude = 5, maxLatitude = 10, minLongitude = 5, maxLongitude = 10\<rparr>"
  let ?A = "\<lparr>minLatitude = 5, maxLatitude = 10, minLongitude = 170, maxLongitude = - 170\<rparr>"
  have ok: "pyramidOk globePyramid" by (simp add: globePyramid_def pyramidOk_def)
  have lev: "(1::nat) < numLevels globePyramid" by (simp add: globePyramid_def)
  have res1: "levelResolution globePyramid 1 \<le> 1 / 2"
    by (simp add: levelset_defs globePyramid_def)
  have sel: "selectLevel globePyramid (1 / 2) = Some 1"
    by (simp add: levelset_defs globePyramid_def upt_conv_Cons eval_nat_numeral)
  have "\<exists>l' < numLevels globePyramid. levelResolution globePyramid l' \<le> 1 / 2"
    using lev res1 by blast
  then have res0: "1 / 2 < levelResolution globePyramid 0"
    using tiles_cover_clipped_sector [of globePyramid "1 / 2" ?S] ok sel by auto
  have tiles: "tilesForSector globePyramid ?S (1 / 2) = [\<lparr>level = 1, row = 1, column = 2\<rparr>]"
    by (simp add: levelset_defs globePyramid_def upt_conv_Cons eval_nat_numeral)
  have inside: "inSector ?S 7 8
      \<and> sectorContains (tileSector globePyramid \<lparr>level = 1, row = 1, column = 2\<rparr>) 7 8"
    by (simp add: levelset_defs inSector_def globePyramid_def)
  have tilesA: "tilesForSector globePyramid ?A (1 / 2)
      = [\<lparr>level = 1, row = 1, column = 3\<rparr>, \<lparr>level = 1, row = 1, column = 0\<rparr>]"
    by (simp add: levelset_defs globePyramid_def upt_conv_Cons eval_nat_numeral)
  have insideA: "inSector ?A 7 (- 175)
      \<and> sectorContains (tileSector globePyramid \<lparr>level = 1, row = 1, column = 0\<rparr>) 7 (- 175)"
    by (simp add: levelset_defs inSector_def globePyramid_def)
  show ?thesis using ok lev res1 sel res0 tiles inside tilesA insideA by blast
qed

text \<open>
  Claim C6 as stated fails. For the pyramid over the northern hemisphere and the sector of
  the whole globe, the sector is clipped to the extent: the four tiles returned do not
  contain the point at latitude -45. For the pyramid over the globe and a target of a
  hundredth of a degree per pixel, every level has a resolution above the target: there
  is no level "whose per-tile resolution is at most R" to draw tiles from.
\<close>

theorem tiles_miss_sector_counterexample:
  "pyramidOk northPyramid
   \<and> inSector
        \<lparr>minLatitude = - 90, maxLatitude = 90, minLongitude = - 180, maxLongitude = 180\<rparr> (- 45) 0
   \<and> tilesForSector northPyramid
        \<lparr>minLatitude = - 90, maxLatitude = 90, minLongitude = - 180, maxLongitude = 180\<rparr> 1
      = [\<lparr>level = 0, row = 0, column = 0\<rparr>, \<lparr>level = 0, row = 0, column = 1\<rparr>,
         \<lparr>level = 0, row = 0, column = 2\<rparr>, \<lparr>level = 0, row = 0, column = 3\<rparr>]
   \<and> \<not> list_ex (\<lambda>a. sectorContains (tileSector northPyramid a) (- 45) 0)
        (tilesForSector northPyramid
          \<lparr>minLatitude = - 90, maxLatitude = 90, minLongitude = - 180, maxLongitude = 180\<rparr> 1)
   \<and> pyramidOk globePyramid
   \<and> list_all (\<lambda>l. 1 / 100 < levelResolution globePyramid l) [0..<numLevels globePyramid]"
  by (simp add: levelset_defs inSector_def globePyramid_def northPyramid_def pyramidOk_def
      upt_conv_Cons eval_nat_numeral)

end
